theory Spec2Isabelle
  imports Main "HOL-Library.Word"
begin

section \<open>Values shared by both variants of the resource\<close>

text \<open>
  The repository holds one managed resource, the Amazon Connect agent status, written twice:
  once against the legacy plugin SDK (functions \<^verbatim>\<open>resourceAgentStatusCreate\<close>,
  \<^verbatim>\<open>resourceAgentStatusRead\<close>, \<^verbatim>\<open>resourceAgentStatusUpdate\<close>, \<^verbatim>\<open>AgentStatusParseID\<close>) and
  once against the typed plugin framework (methods \<^verbatim>\<open>Create\<close>, \<^verbatim>\<open>Read\<close>, \<^verbatim>\<open>Update\<close>,
  \<^verbatim>\<open>Delete\<close> of \<^verbatim>\<open>AgentStatusResource\<close>, and \<^verbatim>\<open>updateAgentStatus\<close>). Both are embedded
  here. The file \<^verbatim>\<open>provider/agent_status.go\<close> is an earlier version of the framework
  resource, without \<^verbatim>\<open>display_order\<close> and \<^verbatim>\<open>import_on_exists\<close>, and it expects a
  pointer to the configuration where the provider of this repository passes a value; the
  embedding follows the later version; the earlier \<^verbatim>\<open>Read\<close> and \<^verbatim>\<open>Delete\<close> treat errors
  and empty outputs in the same way. Go strings are byte sequences and are modelled as \<^typ>\<open>string\<close>; a Go pointer
  \<^verbatim>\<open>*T\<close> is a \<^typ>\<open>'a option\<close> with \<^const>\<open>None\<close> for \<^verbatim>\<open>nil\<close>; an \<^verbatim>\<open>int32\<close>
  is a \<^typ>\<open>32 word\<close>.
\<close>

subsection \<open>Attribute values of the plugin framework\<close>

text \<open>
  A \<^verbatim>\<open>types.String\<close>, \<^verbatim>\<open>types.Int32\<close> or \<^verbatim>\<open>types.Bool\<close> is null, unknown or a known
  value. The accessors are those of the framework: \<^verbatim>\<open>ValueString\<close> and \<^verbatim>\<open>ValueBool\<close>
  give the zero value unless the value is known; \<^verbatim>\<open>ValueInt32Pointer\<close> gives \<^verbatim>\<open>nil\<close> for
  null and a pointer to the stored number otherwise (zero for unknown).
\<close>

datatype 'a tfvalue = Null | Unknown | Known 'a

fun IsNull :: "'a tfvalue \<Rightarrow> bool" where
  "IsNull Null = True"
| "IsNull _ = False"

fun IsUnknown :: "'a tfvalue \<Rightarrow> bool" where
  "IsUnknown Unknown = True"
| "IsUnknown _ = False"

fun ValueString :: "string tfvalue \<Rightarrow> string" where
  "ValueString (Known s) = s"
| "ValueString _ = []"

fun ValueBool :: "bool tfvalue \<Rightarrow> bool" where
  "ValueBool (Known b) = b"
| "ValueBool _ = False"

fun ValueInt32Pointer :: "32 word tfvalue \<Rightarrow> 32 word option" where
  "ValueInt32Pointer Null = None"
| "ValueInt32Pointer Unknown = Some 0"
| "ValueInt32Pointer (Known v) = Some v"

text \<open>\<^verbatim>\<open>aws.ToString\<close> and \<^verbatim>\<open>aws.ToInt32\<close> read a pointer, with the zero value for \<^verbatim>\<open>nil\<close>.\<close>

fun ToString :: "string option \<Rightarrow> string" where
  "ToString None = []"
| "ToString (Some s) = s"

fun ToInt32 :: "32 word option \<Rightarrow> 32 word" where
  "ToInt32 None = 0"
| "ToInt32 (Some v) = v"

subsection \<open>Diagnostics\<close>

text \<open>
  Both SDKs report failures as a list of diagnostics, each with a severity, a summary and a
  detail. \<^verbatim>\<open>HasError\<close> holds when one of them is an error. The framework's \<^verbatim>\<open>Append\<close>
  skips a diagnostic that the list already contains, and \<^verbatim>\<open>AddError\<close> appends one error
  diagnostic through \<^verbatim>\<open>Append\<close>.
\<close>

datatype severity = SeverityError | SeverityWarning

datatype diagnostic = Diagnostic (Severity: severity) (Summary: string) (Detail: string)

definition HasError :: "diagnostic list \<Rightarrow> bool" where
  "HasError diags = list_ex (\<lambda>d. Severity d = SeverityError) diags"

fun Append :: "diagnostic list \<Rightarrow> diagnostic list \<Rightarrow> diagnostic list" where
  "Append diags [] = diags"
| "Append diags (d # ds) = Append (if d \<in> set diags then diags else diags @ [d]) ds"

definition AddError :: "string \<Rightarrow> string \<Rightarrow> diagnostic list \<Rightarrow> diagnostic list" where
  "AddError summary detail diags = Append diags [Diagnostic SeverityError summary detail]"

section \<open>The remote service\<close>

text \<open>
  The four operations of the Amazon Connect client that the resource calls, with the fields
  of their inputs and outputs that the resource reads or writes. An error value carries its
  message (\<^verbatim>\<open>err.Error()\<close>) and whether it is the not-found signal.
\<close>

text \<open>
  Modelled from the spec: \<^verbatim>\<open>tfresource.NotFound\<close> (package \<^verbatim>\<open>internal/tfresource\<close>, not
  among the sources) decides whether an error returned by the service is the "entity not
  found" signal of the specification. The classification is taken as a field of the error
  value, \<open>err_NotFound\<close>, so that every classification is covered.
\<close>

datatype api_error = ApiError (err_NotFound: bool) (err_Error: string)

definition NotFound :: "api_error option \<Rightarrow> bool" where
  "NotFound err = (case err of None \<Rightarrow> False | Some e \<Rightarrow> err_NotFound e)"

record CreateAgentStatusInput =
  ci_InstanceId :: "string option"
  ci_Name :: "string option"
  ci_State :: string
  ci_Description :: "string option"
  ci_DisplayOrder :: "32 word option"
  ci_Tags :: "(string \<times> string) list"

record CreateAgentStatusOutput =
  co_AgentStatusId :: "string option"
  co_AgentStatusARN :: "string option"

record DescribeAgentStatusInput =
  di_AgentStatusId :: "string option"
  di_InstanceId :: "string option"

record AgentStatus =
  as_AgentStatusARN :: "string option"
  as_AgentStatusId :: "string option"
  as_Description :: "string option"
  as_Name :: "string option"
  as_State :: string
  as_DisplayOrder :: "32 word option"
  as_Type :: string
  as_Tags :: "(string \<times> string) list"

record DescribeAgentStatusOutput =
  do_AgentStatus :: "AgentStatus option"

record UpdateAgentStatusInput =
  ui_AgentStatusId :: "string option"
  ui_InstanceId :: "string option"
  ui_Name :: "string option"
  ui_State :: string
  ui_Description :: "string option"
  ui_DisplayOrder :: "32 word option"

record ListAgentStatusesInput =
  li_InstanceId :: "string option"
  li_NextToken :: "string option"

record AgentStatusSummary =
  s_Arn :: "string option"
  s_Id :: "string option"
  s_Name :: "string option"

record ListAgentStatusesOutput =
  lo_AgentStatusSummaryList :: "AgentStatusSummary list"
  lo_NextToken :: "string option"

definition AgentStatusStateEnabled :: string where
  "AgentStatusStateEnabled = ''ENABLED''"

text \<open>
  A Go call \<^verbatim>\<open>out, err := conn.Op(ctx, input)\<close> is a value of a sum type: \<^const>\<open>Inl\<close> the
  error, \<^const>\<open>Inr\<close> the output pointer, which may be \<^verbatim>\<open>nil\<close>. The service is a state
  machine over an arbitrary state \<^typ>\<open>'r\<close>; every call the resource makes is also written,
  with its input and its result, to a log, so that a statement can say which calls were
  made and in what order.
\<close>

datatype event =
    EvCreate CreateAgentStatusInput "api_error + CreateAgentStatusOutput option"
  | EvDescribe DescribeAgentStatusInput "api_error + DescribeAgentStatusOutput option"
  | EvUpdate UpdateAgentStatusInput "api_error option"
  | EvList ListAgentStatusesInput "api_error + ListAgentStatusesOutput option"

record 'r world =
  remote :: 'r
  calls :: "event list"

record 'r ConnectClient =
  CreateAgentStatus ::
    "CreateAgentStatusInput \<Rightarrow> 'r \<Rightarrow> (api_error + CreateAgentStatusOutput option) \<times> 'r"
  DescribeAgentStatus ::
    "DescribeAgentStatusInput \<Rightarrow> 'r \<Rightarrow> (api_error + DescribeAgentStatusOutput option) \<times> 'r"
  UpdateAgentStatus ::
    "UpdateAgentStatusInput \<Rightarrow> 'r \<Rightarrow> api_error option \<times> 'r"
  ListAgentStatuses ::
    "ListAgentStatusesInput \<Rightarrow> 'r \<Rightarrow> (api_error + ListAgentStatusesOutput option) \<times> 'r"

definition conn_CreateAgentStatus ::
  "'r ConnectClient \<Rightarrow> CreateAgentStatusInput \<Rightarrow> 'r world
   \<Rightarrow> (api_error + CreateAgentStatusOutput option) \<times> 'r world" where
  "conn_CreateAgentStatus conn input w =
     (case CreateAgentStatus conn input (remote w) of
        (res, r) \<Rightarrow> (res, \<lparr>remote = r, calls = calls w @ [EvCreate input res]\<rparr>))"

definition conn_DescribeAgentStatus ::
  "'r ConnectClient \<Rightarrow> DescribeAgentStatusInput \<Rightarrow> 'r world
   \<Rightarrow> (api_error + DescribeAgentStatusOutput option) \<times> 'r world" where
  "conn_DescribeAgentStatus conn input w =
     (case DescribeAgentStatus conn input (remote w) of
        (res, r) \<Rightarrow> (res, \<lparr>remote = r, calls = calls w @ [EvDescribe input res]\<rparr>))"

definition conn_UpdateAgentStatus ::
  "'r ConnectClient \<Rightarrow> UpdateAgentStatusInput \<Rightarrow> 'r world \<Rightarrow> api_error option \<times> 'r world" where
  "conn_UpdateAgentStatus conn input w =
     (case UpdateAgentStatus conn input (remote w) of
        (res, r) \<Rightarrow> (res, \<lparr>remote = r, calls = calls w @ [EvUpdate input res]\<rparr>))"

definition conn_ListAgentStatuses ::
  "'r ConnectClient \<Rightarrow> ListAgentStatusesInput \<Rightarrow> 'r world
   \<Rightarrow> (api_error + ListAgentStatusesOutput option) \<times> 'r world" where
  "conn_ListAgentStatuses conn input w =
     (case ListAgentStatuses conn input (remote w) of
        (res, r) \<Rightarrow> (res, \<lparr>remote = r, calls = calls w @ [EvList input res]\<rparr>))"

section \<open>The framework variant\<close>

text \<open>
  \<^verbatim>\<open>AgentStatusResourceModel\<close> and \<^verbatim>\<open>AgentStatusResourceIdentityModel\<close> are the two
  structs of the source, field by field.
\<close>

record AgentStatusResourceModel =
  Arn :: "string tfvalue"
  Description :: "string tfvalue"
  AgentStatusID :: "string tfvalue"
  InstanceID :: "string tfvalue"
  Name :: "string tfvalue"
  State :: "string tfvalue"
  DisplayOrder :: "32 word tfvalue"
  ImportOnExists :: "bool tfvalue"

record AgentStatusResourceIdentityModel =
  id_Arn :: "string tfvalue"
  id_AgentStatusID :: "string tfvalue"

text \<open>
  The host hands every method a request and a response to fill in. Of the response the
  methods touch the diagnostics, the state (\<^const>\<open>None\<close> when it is empty or removed with
  \<^verbatim>\<open>RemoveResource\<close>) and the identity. Of a request they call \<^verbatim>\<open>Plan.Get\<close>,
  \<^verbatim>\<open>Config.GetAttribute\<close>, \<^verbatim>\<open>State.Get\<close> and \<^verbatim>\<open>Identity.Get\<close>, each of which yields
  diagnostics and the decoded value; a request is the results of these calls.
  \<^verbatim>\<open>State.Set\<close> and \<^verbatim>\<open>Identity.Set\<close> store the value they are given. Logging
  (\<^verbatim>\<open>tflog\<close>) is left out.
\<close>

record Response =
  resp_Diagnostics :: "diagnostic list"
  resp_State :: "AgentStatusResourceModel option"
  resp_Identity :: "AgentStatusResourceIdentityModel option"

record CreateRequest =
  create_Plan_Get :: "diagnostic list \<times> AgentStatusResourceModel"
  create_Config_GetAttribute_import_on_exists :: "diagnostic list \<times> bool tfvalue"

record ReadRequest =
  read_State_Get :: "diagnostic list \<times> AgentStatusResourceModel"
  read_Identity_Get :: "diagnostic list \<times> AgentStatusResourceIdentityModel"

record UpdateRequest =
  update_Plan_Get :: "diagnostic list \<times> AgentStatusResourceModel"

record DeleteRequest =
  delete_State_Get :: "diagnostic list \<times> AgentStatusResourceModel"

text \<open>\<^verbatim>\<open>resp.Diagnostics.Append(...)\<close> and \<^verbatim>\<open>resp.Diagnostics.AddError(...)\<close>.\<close>

definition Diagnostics_Append :: "Response \<Rightarrow> diagnostic list \<Rightarrow> Response" where
  "Diagnostics_Append resp ds = resp\<lparr>resp_Diagnostics := Append (resp_Diagnostics resp) ds\<rparr>"

definition Diagnostics_AddError :: "Response \<Rightarrow> string \<Rightarrow> string \<Rightarrow> Response" where
  "Diagnostics_AddError resp summary detail =
     resp\<lparr>resp_Diagnostics := AddError summary detail (resp_Diagnostics resp)\<rparr>"

text \<open>
  \<^verbatim>\<open>updateAgentStatus\<close> builds the update input from the model, sets the display order
  when the state is \<^verbatim>\<open>ENABLED\<close>, calls the service and returns its error.
\<close>

definition updateAgentStatus ::
  "AgentStatusResourceModel \<Rightarrow> 'r ConnectClient \<Rightarrow> 'r world \<Rightarrow> api_error option \<times> 'r world" where
  "updateAgentStatus data conn w =
     (let input = \<lparr>ui_AgentStatusId = Some (ValueString (AgentStatusID data)),
                   ui_InstanceId = Some (ValueString (InstanceID data)),
                   ui_Name = Some (ValueString (Name data)),
                   ui_State = ValueString (State data),
                   ui_Description = Some (ValueString (Description data)),
                   ui_DisplayOrder = None\<rparr>;
          input = (if ui_State input = AgentStatusStateEnabled
                   then input\<lparr>ui_DisplayOrder := ValueInt32Pointer (DisplayOrder data)\<rparr>
                   else input)
      in conn_UpdateAgentStatus conn input w)"

text \<open>
  \<^verbatim>\<open>Create\<close>. A method returns, or it stops with Go's nil-pointer panic: \<^verbatim>\<open>Create\<close>
  reads \<^verbatim>\<open>listResponse.AgentStatusSummaryList\<close> and \<^verbatim>\<open>response.AgentStatusId\<close> without a
  \<^verbatim>\<open>nil\<close> check. The pagination loop \<^verbatim>\<open>for { ... }\<close> has no bound, so it is a partial
  function into \<^typ>\<open>'a option\<close>, \<^const>\<open>None\<close> standing for a run that never ends. The
  loop leaves by \<^verbatim>\<open>return\<close> (after adopting a listed entry), by \<^verbatim>\<open>break\<close> (a failed list
  call, or no continuation token) or by the panic; \<^verbatim>\<open>range\<close> with a \<^verbatim>\<open>return\<close> at the
  first entry of equal name is \<^const>\<open>find\<close>. \<open>Create_adopt\<close> is the body of the
  \<^verbatim>\<open>if\<close> inside the \<^verbatim>\<open>range\<close> loop, \<open>Create_call\<close> the part of \<^verbatim>\<open>Create\<close> after the
  loop.
\<close>

datatype 'a outcome = Panic | Returned 'a

datatype scan_exit = ScanReturn Response | ScanBreak Response | ScanPanic

definition Create_adopt ::
  "'r ConnectClient \<Rightarrow> AgentStatusResourceModel \<Rightarrow> AgentStatusSummary \<Rightarrow> Response \<Rightarrow> 'r world
   \<Rightarrow> Response \<times> 'r world" where
  "Create_adopt conn data status resp w =
     (let data = data\<lparr>AgentStatusID := Known (ToString (s_Id status))\<rparr>;
          data = data\<lparr>Arn := Known (ToString (s_Arn status))\<rparr>
      in case updateAgentStatus data conn w of
           (updateErr, w1) \<Rightarrow>
             (let resp = (case updateErr of
                            Some e \<Rightarrow> Diagnostics_AddError resp ''Error updating Connect Agent Status''
                              (''Could not update Connect Agent Status, unexpected error: '' @ err_Error e)
                          | None \<Rightarrow> resp);
                  resp = resp\<lparr>resp_State := Some data\<rparr>;
                  identity = \<lparr>id_Arn = Arn data, id_AgentStatusID = AgentStatusID data\<rparr>;
                  resp = resp\<lparr>resp_Identity := Some identity\<rparr>
              in (resp, w1)))"

partial_function (option) Create_scan ::
  "'r ConnectClient \<Rightarrow> AgentStatusResourceModel \<Rightarrow> string option \<Rightarrow> Response \<Rightarrow> 'r world
   \<Rightarrow> (scan_exit \<times> 'r world) option" where
  "Create_scan conn data nextToken resp w =
     (let listInput = \<lparr>li_InstanceId = Some (ValueString (InstanceID data)),
                       li_NextToken = nextToken\<rparr>
      in case conn_ListAgentStatuses conn listInput w of
           (res, w1) \<Rightarrow>
             (case res of
                Inl listErr \<Rightarrow>
                  Some (ScanBreak (Diagnostics_AddError resp ''Error listing Connect Agent Statuses''
                    (''Could not list Connect Agent Statuses, unexpected error: '' @ err_Error listErr)), w1)
              | Inr None \<Rightarrow> Some (ScanPanic, w1)
              | Inr (Some listResponse) \<Rightarrow>
                  (case find (\<lambda>status. ToString (s_Name status) = ValueString (Name data))
                          (lo_AgentStatusSummaryList listResponse) of
                     Some status \<Rightarrow>
                       (case Create_adopt conn data status resp w1 of
                          (resp1, w2) \<Rightarrow> Some (ScanReturn resp1, w2))
                   | None \<Rightarrow>
                       (case lo_NextToken listResponse of
                          None \<Rightarrow> Some (ScanBreak resp, w1)
                        | Some t \<Rightarrow> Create_scan conn data (Some t) resp w1))))"

declare Create_scan.simps [code]

definition Create_call ::
  "'r ConnectClient \<Rightarrow> CreateAgentStatusInput \<Rightarrow> AgentStatusResourceModel \<Rightarrow> Response \<Rightarrow> 'r world
   \<Rightarrow> Response outcome \<times> 'r world" where
  "Create_call conn input data resp w =
     (case conn_CreateAgentStatus conn input w of
        (res, w1) \<Rightarrow>
          (case res of
             Inl err \<Rightarrow>
               (Returned (Diagnostics_AddError resp ''Error creating Connect Agent Status''
                  (''Could not create Connect Agent Status, unexpected error: '' @ err_Error err)), w1)
           | Inr None \<Rightarrow> (Panic, w1)
           | Inr (Some response) \<Rightarrow>
               (let data = data\<lparr>AgentStatusID := Known (ToString (co_AgentStatusId response))\<rparr>;
                    data = data\<lparr>Arn := Known (ToString (co_AgentStatusARN response))\<rparr>;
                    resp = resp\<lparr>resp_State := Some data\<rparr>;
                    identity = \<lparr>id_Arn = Arn data, id_AgentStatusID = AgentStatusID data\<rparr>;
                    resp = resp\<lparr>resp_Identity := Some identity\<rparr>
                in (Returned resp, w1))))"

definition Create ::
  "'r ConnectClient \<Rightarrow> CreateRequest \<Rightarrow> Response \<Rightarrow> 'r world
   \<Rightarrow> (Response outcome \<times> 'r world) option" where
  "Create conn req resp w =
     (let data = snd (create_Plan_Get req);
          importOnExists = snd (create_Config_GetAttribute_import_on_exists req);
          resp = Diagnostics_Append resp (fst (create_Plan_Get req));
          resp = Diagnostics_Append resp (fst (create_Config_GetAttribute_import_on_exists req))
      in if HasError (resp_Diagnostics resp) then Some (Returned resp, w)
         else
           (let input = \<lparr>ci_InstanceId = Some (ValueString (InstanceID data)),
                         ci_Name = Some (ValueString (Name data)),
                         ci_State = ValueString (State data),
                         ci_Description = Some (ValueString (Description data)),
                         ci_DisplayOrder = None,
                         ci_Tags = []\<rparr>;
                input = (if ci_State input = AgentStatusStateEnabled
                         then input\<lparr>ci_DisplayOrder := ValueInt32Pointer (DisplayOrder data)\<rparr>
                         else input)
            in if IsNull importOnExists \<or> IsUnknown importOnExists \<or> ValueBool importOnExists
               then (case Create_scan conn data None resp w of
                       None \<Rightarrow> None
                     | Some (ScanReturn resp1, w1) \<Rightarrow> Some (Returned resp1, w1)
                     | Some (ScanPanic, w1) \<Rightarrow> Some (Panic, w1)
                     | Some (ScanBreak resp1, w1) \<Rightarrow> Some (Create_call conn input data resp1 w1))
               else Some (Create_call conn input data resp w)))"

text \<open>\<^verbatim>\<open>Read\<close>, \<^verbatim>\<open>Update\<close> and \<^verbatim>\<open>Delete\<close> (whose body after decoding the state is commented out in the source).\<close>

definition Read ::
  "'r ConnectClient \<Rightarrow> ReadRequest \<Rightarrow> Response \<Rightarrow> 'r world \<Rightarrow> Response \<times> 'r world" where
  "Read conn req resp w =
     (let data = snd (read_State_Get req);
          resp = Diagnostics_Append resp (fst (read_State_Get req))
      in if HasError (resp_Diagnostics resp) then (resp, w)
         else
           (let resp = Diagnostics_Append resp (fst (read_Identity_Get req))
            in if HasError (resp_Diagnostics resp) then (resp, w)
               else
                 (let input = \<lparr>di_AgentStatusId = Some (ValueString (AgentStatusID data)),
                               di_InstanceId = Some (ValueString (InstanceID data))\<rparr>
                  in case conn_DescribeAgentStatus conn input w of
                       (res, w1) \<Rightarrow>
                         (case res of
                            Inl err \<Rightarrow>
                              (Diagnostics_AddError resp ''Error reading Connect Agent Status''
                                 (''Could not read Connect Agent Status, unexpected error: '' @ err_Error err), w1)
                          | Inr response \<Rightarrow>
                              (case Option.bind response do_AgentStatus of
                                 None \<Rightarrow> (resp\<lparr>resp_State := None\<rparr>, w1)
                               | Some agentStatus \<Rightarrow>
                                   (let data = data\<lparr>AgentStatusID := Known (ToString (as_AgentStatusId agentStatus))\<rparr>;
                                        data = data\<lparr>Arn := Known (ToString (as_AgentStatusARN agentStatus))\<rparr>;
                                        data = data\<lparr>Description := Known (ToString (as_Description agentStatus))\<rparr>;
                                        data = data\<lparr>Name := Known (ToString (as_Name agentStatus))\<rparr>;
                                        data = data\<lparr>State := Known (as_State agentStatus)\<rparr>;
                                        data = (if as_State agentStatus = AgentStatusStateEnabled
                                                   \<and> as_DisplayOrder agentStatus \<noteq> None
                                                then data\<lparr>DisplayOrder := Known (ToInt32 (as_DisplayOrder agentStatus))\<rparr>
                                                else data)
                                    in (resp\<lparr>resp_State := Some data\<rparr>, w1)))))))"

definition Update ::
  "'r ConnectClient \<Rightarrow> UpdateRequest \<Rightarrow> Response \<Rightarrow> 'r world \<Rightarrow> Response \<times> 'r world" where
  "Update conn req resp w =
     (let data = snd (update_Plan_Get req);
          resp = Diagnostics_Append resp (fst (update_Plan_Get req))
      in if HasError (resp_Diagnostics resp) then (resp, w)
         else
           (case updateAgentStatus data conn w of
              (err, w1) \<Rightarrow>
                (case err of
                   Some e \<Rightarrow>
                     (Diagnostics_AddError resp ''Error updating Connect Agent Status''
                        (''Could not update Connect Agent Status, unexpected error: '' @ err_Error e), w1)
                 | None \<Rightarrow> (resp\<lparr>resp_State := Some data\<rparr>, w1))))"

definition Delete ::
  "DeleteRequest \<Rightarrow> Response \<Rightarrow> 'r world \<Rightarrow> Response \<times> 'r world" where
  "Delete req resp w =
     (let resp = Diagnostics_Append resp (fst (delete_State_Get req))
      in if HasError (resp_Diagnostics resp) then (resp, w)
         else (resp, w))"

section \<open>The legacy-SDK variant\<close>

subsection \<open>The composite identifier\<close>

text \<open>
  The legacy-SDK resource keeps one string as its identifier,
  \<^verbatim>\<open>fmt.Sprintf("%s:%s", instanceID, agentStatusID)\<close>, and reads it back with
  \<^verbatim>\<open>AgentStatusParseID\<close>, which calls \<^verbatim>\<open>strings.SplitN(id, ":", 2)\<close>.
\<close>

text \<open>
  \<^verbatim>\<open>strings.SplitN(s, sep, 2)\<close> for a one-byte separator: the whole string when the
  separator does not occur, otherwise the part before the first occurrence and the part
  after it.
\<close>

definition SplitN_2 :: "string \<Rightarrow> char \<Rightarrow> string list" where
  "SplitN_2 s sep =
     (if sep \<in> set s
      then [takeWhile (\<lambda>c. c \<noteq> sep) s, tl (dropWhile (\<lambda>c. c \<noteq> sep) s)]
      else [s])"

datatype parse_error = UnexpectedFormat string

text \<open>
  \<^verbatim>\<open>AgentStatusParseID\<close> returns \<^verbatim>\<open>(parts[0], parts[1], nil)\<close> or the error
  \<^verbatim>\<open>unexpected format of ID (%s), expected instanceID:agentStatusID\<close>, which carries
  the identifier it was given.
\<close>

definition AgentStatusParseID :: "string \<Rightarrow> parse_error + string \<times> string" where
  "AgentStatusParseID id' =
     (let parts = SplitN_2 id' CHR '':'' in
      if length parts \<noteq> 2 \<or> parts ! 0 = [] \<or> parts ! 1 = []
      then Inl (UnexpectedFormat id')
      else Inr (parts ! 0, parts ! 1))"

text \<open>The identifier that \<^verbatim>\<open>resourceAgentStatusCreate\<close> passes to \<^verbatim>\<open>d.SetId\<close>.\<close>

definition AgentStatusCreateID :: "string \<Rightarrow> string \<Rightarrow> string" where
  "AgentStatusCreateID instanceID agentStatusID = instanceID @ '':'' @ agentStatusID"

subsection \<open>The resource data of the legacy SDK\<close>

text \<open>
  Modelled from the spec: the attribute-name constants of package \<^verbatim>\<open>names\<close> (not among the
  sources), with the attribute names of the schema in the specification's section on
  external interfaces.
\<close>

definition AttrARN :: string where "AttrARN = ''arn''"
definition AttrDescription :: string where "AttrDescription = ''description''"
definition AttrInstanceID :: string where "AttrInstanceID = ''instance_id''"
definition AttrName :: string where "AttrName = ''name''"
definition AttrState :: string where "AttrState = ''state''"
definition AttrTags :: string where "AttrTags = ''tags''"
definition AttrTagsAll :: string where "AttrTagsAll = ''tags_all''"

text \<open>The keys of the \<^verbatim>\<open>Schema\<close> map of \<^verbatim>\<open>ResourceAgentStatus\<close>.\<close>

definition Schema_keys :: "string list" where
  "Schema_keys = [AttrARN, AttrDescription, ''agent_status_id'', AttrInstanceID, AttrName,
                  AttrState, AttrTags, AttrTagsAll]"

text \<open>
  \<^verbatim>\<open>schema.ResourceData\<close>: the identifier, the new-resource mark, the attribute values of
  the prior state, the planned values, and the values written with \<^verbatim>\<open>d.Set\<close>. All
  attributes read here are strings, with the empty string as zero value. \<^verbatim>\<open>d.Get\<close> reads
  a written value before the planned one; \<^verbatim>\<open>d.GetOk\<close> also tells whether the value is
  non-zero; \<^verbatim>\<open>d.Set\<close> writes keys of the schema only (for another key it returns an error,
  which the source ignores); \<^verbatim>\<open>d.HasChanges\<close> holds when prior state and plan differ at one
  of the keys.
\<close>

record ResourceData =
  rd_Id :: string
  rd_isNew :: bool
  rd_state :: "string \<Rightarrow> string"
  rd_plan :: "string \<Rightarrow> string"
  rd_set :: "string \<rightharpoonup> string"

definition Id :: "ResourceData \<Rightarrow> string" where
  "Id d = rd_Id d"

definition SetId :: "ResourceData \<Rightarrow> string \<Rightarrow> ResourceData" where
  "SetId d v = d\<lparr>rd_Id := v\<rparr>"

definition IsNewResource :: "ResourceData \<Rightarrow> bool" where
  "IsNewResource d = rd_isNew d"

definition Get :: "ResourceData \<Rightarrow> string \<Rightarrow> string" where
  "Get d key = (case rd_set d key of Some v \<Rightarrow> v | None \<Rightarrow> rd_plan d key)"

definition GetOk :: "ResourceData \<Rightarrow> string \<Rightarrow> string \<times> bool" where
  "GetOk d key = (Get d key, Get d key \<noteq> [])"

definition Set_attr :: "ResourceData \<Rightarrow> string \<Rightarrow> string \<Rightarrow> ResourceData" where
  "Set_attr d key v = (if key \<in> set Schema_keys then d\<lparr>rd_set := (rd_set d)(key \<mapsto> v)\<rparr> else d)"

definition HasChange :: "ResourceData \<Rightarrow> string \<Rightarrow> bool" where
  "HasChange d key = (rd_state d key \<noteq> rd_plan d key)"

definition HasChanges :: "ResourceData \<Rightarrow> string list \<Rightarrow> bool" where
  "HasChanges d keys = list_ex (HasChange d) keys"

text \<open>
  Modelled from the spec: \<^verbatim>\<open>sdkdiag.AppendFromErr\<close> and \<^verbatim>\<open>sdkdiag.AppendErrorf\<close> (package
  \<^verbatim>\<open>internal/errs/sdkdiag\<close>, not among the sources) surface a failure as a reconciliation
  error: they append one error diagnostic that carries the message.
\<close>

definition AppendFromErr :: "diagnostic list \<Rightarrow> string \<Rightarrow> diagnostic list" where
  "AppendFromErr diags err = diags @ [Diagnostic SeverityError err []]"

definition AppendErrorf :: "diagnostic list \<Rightarrow> string \<Rightarrow> diagnostic list" where
  "AppendErrorf diags msg = diags @ [Diagnostic SeverityError msg []]"

text \<open>The message of the error of \<^verbatim>\<open>AgentStatusParseID\<close>.\<close>

fun parse_error_Error :: "parse_error \<Rightarrow> string" where
  "parse_error_Error (UnexpectedFormat id') =
     ''unexpected format of ID ('' @ id' @ ''), expected instanceID:agentStatusID''"

subsection \<open>Create, read, update and delete\<close>

text \<open>
  Modelled from the spec: \<^verbatim>\<open>getTagsIn(ctx)\<close> (generated code of the package, not among the
  sources) reads the tags to send from the context; the context is a record with that
  field. \<^verbatim>\<open>setTagsOut\<close> writes to the context only and is left out. The \<^verbatim>\<open>meta\<close>
  argument is the client.
\<close>

record Context =
  TagsIn :: "(string \<times> string) list"

definition resourceAgentStatusRead ::
  "Context \<Rightarrow> ResourceData \<Rightarrow> 'r ConnectClient \<Rightarrow> 'r world
   \<Rightarrow> diagnostic list \<times> ResourceData \<times> 'r world" where
  "resourceAgentStatusRead ctx d conn w =
     (let diags = [] in
      case AgentStatusParseID (Id d) of
        Inl err \<Rightarrow> (AppendFromErr diags (parse_error_Error err), d, w)
      | Inr (instanceID, agentStatusID) \<Rightarrow>
          (case conn_DescribeAgentStatus conn
                  \<lparr>di_AgentStatusId = Some agentStatusID, di_InstanceId = Some instanceID\<rparr> w of
             (res, w1) \<Rightarrow>
               (let err = (case res of Inl e \<Rightarrow> Some e | Inr _ \<Rightarrow> None);
                    resp = (case res of Inl _ \<Rightarrow> None | Inr r \<Rightarrow> r)
                in if \<not> IsNewResource d \<and> NotFound err then (diags, SetId d [], w1)
                   else
                     (case err of
                        Some e \<Rightarrow>
                          (AppendFromErr diags
                             (''error getting Connect Agent Status ('' @ Id d @ ''): '' @ err_Error e), d, w1)
                      | None \<Rightarrow>
                          (case Option.bind resp do_AgentStatus of
                             None \<Rightarrow>
                               (AppendFromErr diags
                                  (''error getting Connect Agent Status ('' @ Id d @ ''): empty response''), d, w1)
                           | Some agentStatus \<Rightarrow>
                               (let d = Set_attr d AttrARN (ToString (as_AgentStatusARN agentStatus));
                                    d = Set_attr d ''agent_status_id'' (ToString (as_AgentStatusId agentStatus));
                                    d = Set_attr d AttrInstanceID instanceID;
                                    d = Set_attr d AttrDescription (ToString (as_Description agentStatus));
                                    d = Set_attr d AttrName (ToString (as_Name agentStatus));
                                    d = Set_attr d AttrState (as_State agentStatus);
                                    d = Set_attr d ''type'' (as_Type agentStatus)
                                in (diags, d, w1)))))))"

definition resourceAgentStatusCreate ::
  "Context \<Rightarrow> ResourceData \<Rightarrow> 'r ConnectClient \<Rightarrow> 'r world
   \<Rightarrow> diagnostic list \<times> ResourceData \<times> 'r world" where
  "resourceAgentStatusCreate ctx d conn w =
     (let diags = [];
          instanceID = Get d AttrInstanceID;
          name = Get d AttrName;
          input = \<lparr>ci_InstanceId = Some instanceID,
                   ci_Name = Some name,
                   ci_State = Get d AttrState,
                   ci_Description = None,
                   ci_DisplayOrder = None,
                   ci_Tags = TagsIn ctx\<rparr>;
          input = (case GetOk d AttrDescription of
                     (v, ok) \<Rightarrow> if ok then input\<lparr>ci_Description := Some v\<rparr> else input)
      in case conn_CreateAgentStatus conn input w of
           (res, w1) \<Rightarrow>
             (case res of
                Inl err \<Rightarrow>
                  (AppendFromErr diags
                     (''error creating Connect Agent Status ('' @ name @ ''): '' @ err_Error err), d, w1)
              | Inr None \<Rightarrow>
                  (AppendFromErr diags
                     (''error creating Connect Agent Status ('' @ name @ ''): empty output''), d, w1)
              | Inr (Some output) \<Rightarrow>
                  (let d = SetId d (AgentStatusCreateID instanceID (ToString (co_AgentStatusId output)))
                   in case resourceAgentStatusRead ctx d conn w1 of
                        (rdiags, d1, w2) \<Rightarrow> (diags @ rdiags, d1, w2))))"

definition resourceAgentStatusUpdate ::
  "Context \<Rightarrow> ResourceData \<Rightarrow> 'r ConnectClient \<Rightarrow> 'r world
   \<Rightarrow> diagnostic list \<times> ResourceData \<times> 'r world" where
  "resourceAgentStatusUpdate ctx d conn w =
     (let diags = [] in
      case AgentStatusParseID (Id d) of
        Inl err \<Rightarrow> (AppendFromErr diags (parse_error_Error err), d, w)
      | Inr (instanceID, agentStatusID) \<Rightarrow>
          (if HasChanges d [AttrName, AttrDescription, AttrState]
           then
             (let input = \<lparr>ui_AgentStatusId = Some agentStatusID,
                           ui_InstanceId = Some instanceID,
                           ui_Name = Some (Get d AttrName),
                           ui_State = Get d AttrState,
                           ui_Description = Some (Get d AttrDescription),
                           ui_DisplayOrder = None\<rparr>
              in case conn_UpdateAgentStatus conn input w of
                   (err, w1) \<Rightarrow>
                     (case err of
                        Some e \<Rightarrow>
                          (AppendErrorf diags
                             (''[ERROR] Error updating Agent Status ('' @ Id d @ ''): '' @ err_Error e), d, w1)
                      | None \<Rightarrow>
                          (case resourceAgentStatusRead ctx d conn w1 of
                             (rdiags, d1, w2) \<Rightarrow> (diags @ rdiags, d1, w2))))
           else
             (case resourceAgentStatusRead ctx d conn w of
                (rdiags, d1, w2) \<Rightarrow> (diags @ rdiags, d1, w2))))"

text \<open>
  \<^verbatim>\<open>schema.NoopContext\<close> of the legacy SDK returns no diagnostics and does nothing else.
  \<^verbatim>\<open>ResourceAgentStatus\<close> is the resource as the source declares it.
\<close>

definition NoopContext ::
  "Context \<Rightarrow> ResourceData \<Rightarrow> 'r ConnectClient \<Rightarrow> 'r world
   \<Rightarrow> diagnostic list \<times> ResourceData \<times> 'r world" where
  "NoopContext ctx d conn w = ([], d, w)"

record 'r Resource =
  CreateContext :: "Context \<Rightarrow> ResourceData \<Rightarrow> 'r ConnectClient \<Rightarrow> 'r world \<Rightarrow> diagnostic list \<times> ResourceData \<times> 'r world"
  ReadContext :: "Context \<Rightarrow> ResourceData \<Rightarrow> 'r ConnectClient \<Rightarrow> 'r world \<Rightarrow> diagnostic list \<times> ResourceData \<times> 'r world"
  UpdateContext :: "Context \<Rightarrow> ResourceData \<Rightarrow> 'r ConnectClient \<Rightarrow> 'r world \<Rightarrow> diagnostic list \<times> ResourceData \<times> 'r world"
  DeleteContext :: "Context \<Rightarrow> ResourceData \<Rightarrow> 'r ConnectClient \<Rightarrow> 'r world \<Rightarrow> diagnostic list \<times> ResourceData \<times> 'r world"

definition ResourceAgentStatus :: "'r Resource" where
  "ResourceAgentStatus =
     \<lparr>CreateContext = resourceAgentStatusCreate,
      ReadContext = resourceAgentStatusRead,
      UpdateContext = resourceAgentStatusUpdate,
      DeleteContext = NoopContext\<rparr>"

section \<open>Notions used to state the properties\<close>

subsection \<open>Logged calls\<close>

text \<open>
  Kinds of logged calls; the entries of all pages that the logged list calls returned, in
  order; and, for a logged create or update call, the state and the display order of the
  payload that was sent.
\<close>

fun is_EvList :: "event \<Rightarrow> bool" where
  "is_EvList (EvList _ _) = True"
| "is_EvList _ = False"

fun is_EvCreate :: "event \<Rightarrow> bool" where
  "is_EvCreate (EvCreate _ _) = True"
| "is_EvCreate _ = False"

fun is_EvUpdate :: "event \<Rightarrow> bool" where
  "is_EvUpdate (EvUpdate _ _) = True"
| "is_EvUpdate _ = False"

fun is_EvDescribe :: "event \<Rightarrow> bool" where
  "is_EvDescribe (EvDescribe _ _) = True"
| "is_EvDescribe _ = False"

fun listed :: "event list \<Rightarrow> AgentStatusSummary list" where
  "listed [] = []"
| "listed (EvList _ (Inr (Some p)) # es) = lo_AgentStatusSummaryList p @ listed es"
| "listed (_ # es) = listed es"


fun payload_display_order :: "event \<Rightarrow> 32 word option" where
  "payload_display_order (EvCreate input _) = ci_DisplayOrder input"
| "payload_display_order (EvUpdate input _) = ui_DisplayOrder input"
| "payload_display_order _ = None"

subsection \<open>The adoption scan of the framework's Create\<close>

text \<open>
  The pagination loop of \<^verbatim>\<open>Create\<close> ends when, after finitely many list calls, a call
  fails, returns no output, returns a page with an entry of the name sought, or returns a
  page without continuation token. This is a property of the service alone (of its answers
  to the list calls, from a given state on); a service that hands out continuation tokens
  for ever keeps the loop running for ever.
\<close>

inductive scan_halts ::
  "'r ConnectClient \<Rightarrow> AgentStatusResourceModel \<Rightarrow> string option \<Rightarrow> 'r world \<Rightarrow> bool"
  for conn :: "'r ConnectClient" and data :: AgentStatusResourceModel where
  halts_error:
    "conn_ListAgentStatuses conn
       \<lparr>li_InstanceId = Some (ValueString (InstanceID data)), li_NextToken = nextToken\<rparr> w = (Inl e, w1)
     \<Longrightarrow> scan_halts conn data nextToken w"
| halts_nil:
    "conn_ListAgentStatuses conn
       \<lparr>li_InstanceId = Some (ValueString (InstanceID data)), li_NextToken = nextToken\<rparr> w = (Inr None, w1)
     \<Longrightarrow> scan_halts conn data nextToken w"
| halts_match:
    "conn_ListAgentStatuses conn
       \<lparr>li_InstanceId = Some (ValueString (InstanceID data)), li_NextToken = nextToken\<rparr> w = (Inr (Some p), w1)
     \<Longrightarrow> find (\<lambda>status. ToString (s_Name status) = ValueString (Name data))
           (lo_AgentStatusSummaryList p) = Some st
     \<Longrightarrow> scan_halts conn data nextToken w"
| halts_last:
    "conn_ListAgentStatuses conn
       \<lparr>li_InstanceId = Some (ValueString (InstanceID data)), li_NextToken = nextToken\<rparr> w = (Inr (Some p), w1)
     \<Longrightarrow> lo_NextToken p = None
     \<Longrightarrow> scan_halts conn data nextToken w"
| halts_next:
    "conn_ListAgentStatuses conn
       \<lparr>li_InstanceId = Some (ValueString (InstanceID data)), li_NextToken = nextToken\<rparr> w = (Inr (Some p), w1)
     \<Longrightarrow> lo_NextToken p = Some t
     \<Longrightarrow> scan_halts conn data (Some t) w1
     \<Longrightarrow> scan_halts conn data nextToken w"

text \<open>
  The list calls of a paginated scan, as a property of a list of logged calls, of the
  service and of the state it starts in: the list is not empty; every call carries the
  instance identifier of the plan and the continuation token of the page before it (none
  for the first); its logged result is the answer of the service in the state the calls
  before it left; and the list goes on with the next call exactly when the page returned
  has no entry of the name sought and has a continuation token, and ends otherwise (after a
  failed call, an absent output, a page with such an entry, or a page without token).
\<close>

fun scan_log ::
  "'r ConnectClient \<Rightarrow> AgentStatusResourceModel \<Rightarrow> string option \<Rightarrow> 'r \<Rightarrow> event list \<Rightarrow> bool" where
  "scan_log conn data nextToken r [] = False"
| "scan_log conn data nextToken r (ev # evs) =
     (case ListAgentStatuses conn
             \<lparr>li_InstanceId = Some (ValueString (InstanceID data)), li_NextToken = nextToken\<rparr> r of
        (res, r1) \<Rightarrow>
          ev = EvList \<lparr>li_InstanceId = Some (ValueString (InstanceID data)), li_NextToken = nextToken\<rparr> res
          \<and> (case res of
               Inr (Some p) \<Rightarrow>
                 (case find (\<lambda>status. ToString (s_Name status) = ValueString (Name data))
                         (lo_AgentStatusSummaryList p) of
                    Some st \<Rightarrow> evs = []
                  | None \<Rightarrow>
                      (case lo_NextToken p of
                         None \<Rightarrow> evs = []
                       | Some t \<Rightarrow> scan_log conn data (Some t) r1 evs))
             | _ \<Rightarrow> evs = []))"

text \<open>
  What adopting a listed entry means: the model with the entry's identifier and ARN, the
  update input sent for it, and the response written after the update call returned
  \<open>ures\<close>.
\<close>

definition adopted :: "AgentStatusResourceModel \<Rightarrow> AgentStatusSummary \<Rightarrow> AgentStatusResourceModel" where
  "adopted data st = data\<lparr>AgentStatusID := Known (ToString (s_Id st)), Arn := Known (ToString (s_Arn st))\<rparr>"

definition adopt_update :: "AgentStatusResourceModel \<Rightarrow> AgentStatusSummary \<Rightarrow> UpdateAgentStatusInput" where
  "adopt_update data st =
     \<lparr>ui_AgentStatusId = Some (ToString (s_Id st)),
      ui_InstanceId = Some (ValueString (InstanceID data)),
      ui_Name = Some (ValueString (Name data)),
      ui_State = ValueString (State data),
      ui_Description = Some (ValueString (Description data)),
      ui_DisplayOrder = (if ValueString (State data) = ''ENABLED''
                         then ValueInt32Pointer (DisplayOrder data) else None)\<rparr>"

definition adopt_response ::
  "AgentStatusResourceModel \<Rightarrow> AgentStatusSummary \<Rightarrow> Response \<Rightarrow> api_error option \<Rightarrow> Response" where
  "adopt_response data st resp ures =
     \<lparr>resp_Diagnostics =
        (case ures of
           None \<Rightarrow> resp_Diagnostics resp
         | Some e \<Rightarrow> AddError ''Error updating Connect Agent Status''
             (''Could not update Connect Agent Status, unexpected error: '' @ err_Error e)
             (resp_Diagnostics resp)),
      resp_State = Some (adopted data st),
      resp_Identity = Some \<lparr>id_Arn = Known (ToString (s_Arn st)),
                             id_AgentStatusID = Known (ToString (s_Id st))\<rparr>\<rparr>"

text \<open>
The response after a failed list call, and what a finished scan has logged and decided.
\<close>

definition list_failed :: "Response \<Rightarrow> api_error \<Rightarrow> Response" where
  "list_failed resp e =
     Diagnostics_AddError resp ''Error listing Connect Agent Statuses''
       (''Could not list Connect Agent Statuses, unexpected error: '' @ err_Error e)"

definition scan_post ::
  "AgentStatusResourceModel \<Rightarrow> string option \<Rightarrow> Response \<Rightarrow> scan_exit \<Rightarrow> event list \<Rightarrow> bool" where
  "scan_post data tok resp exit evs \<longleftrightarrow>
     (\<exists>res es. evs = EvList \<lparr>li_InstanceId = Some (ValueString (InstanceID data)), li_NextToken = tok\<rparr> res # es)
     \<and> (case find (\<lambda>status. ToString (s_Name status) = ValueString (Name data)) (listed evs) of
          Some st \<Rightarrow>
            (\<exists>pre ures. evs = pre @ [EvUpdate (adopt_update data st) ures] \<and> list_all is_EvList pre
               \<and> exit = ScanReturn (adopt_response data st resp ures))
        | None \<Rightarrow>
            list_all is_EvList evs
            \<and> (case last evs of
                 EvList _ (Inl e) \<Rightarrow> exit = ScanBreak (list_failed resp e)
               | EvList _ (Inr None) \<Rightarrow> exit = ScanPanic
               | _ \<Rightarrow> exit = ScanBreak resp))
     \<and> (\<forall>inp e. EvList inp (Inl e) \<in> set evs \<longrightarrow>
            exit = ScanBreak (list_failed resp e) \<and> (\<exists>pre. evs = pre @ [EvList inp (Inl e)]))"

subsection \<open>Payloads and responses of the framework variant\<close>

text \<open>
  The input that \<^verbatim>\<open>Create\<close> builds before the scan, the response after a failed create
  call, the model after a successful one, and the outcome of \<^verbatim>\<open>Create\<close> as a function of
  the result of the create call. \<open>decoded\<close> is the response after the plan and the
  configured \<^verbatim>\<open>import_on_exists\<close> have been read. The same for \<^verbatim>\<open>Update\<close> and
  \<^verbatim>\<open>Read\<close>: the update input, the responses after a failed call, and the model refreshed
  from a described status.
\<close>

definition create_payload :: "AgentStatusResourceModel \<Rightarrow> CreateAgentStatusInput" where
  "create_payload data =
     \<lparr>ci_InstanceId = Some (ValueString (InstanceID data)),
      ci_Name = Some (ValueString (Name data)),
      ci_State = ValueString (State data),
      ci_Description = Some (ValueString (Description data)),
      ci_DisplayOrder = (if ValueString (State data) = ''ENABLED''
                         then ValueInt32Pointer (DisplayOrder data) else None),
      ci_Tags = []\<rparr>"

definition create_failed :: "Response \<Rightarrow> api_error \<Rightarrow> Response" where
  "create_failed resp e =
     Diagnostics_AddError resp ''Error creating Connect Agent Status''
       (''Could not create Connect Agent Status, unexpected error: '' @ err_Error e)"

definition created :: "AgentStatusResourceModel \<Rightarrow> CreateAgentStatusOutput \<Rightarrow> AgentStatusResourceModel" where
  "created data response =
     data\<lparr>AgentStatusID := Known (ToString (co_AgentStatusId response)),
          Arn := Known (ToString (co_AgentStatusARN response))\<rparr>"

definition create_outcome ::
  "AgentStatusResourceModel \<Rightarrow> Response \<Rightarrow> api_error + CreateAgentStatusOutput option \<Rightarrow> Response outcome" where
  "create_outcome data resp res =
     (case res of
        Inl e \<Rightarrow> Returned (create_failed resp e)
      | Inr None \<Rightarrow> Panic
      | Inr (Some response) \<Rightarrow>
          Returned (resp\<lparr>resp_State := Some (created data response),
                         resp_Identity := Some \<lparr>id_Arn = Known (ToString (co_AgentStatusARN response)),
                                                 id_AgentStatusID = Known (ToString (co_AgentStatusId response))\<rparr>\<rparr>))"

definition decoded :: "CreateRequest \<Rightarrow> Response \<Rightarrow> Response" where
  "decoded req resp =
     Diagnostics_Append (Diagnostics_Append resp (fst (create_Plan_Get req)))
       (fst (create_Config_GetAttribute_import_on_exists req))"

definition update_payload :: "AgentStatusResourceModel \<Rightarrow> UpdateAgentStatusInput" where
  "update_payload data =
     \<lparr>ui_AgentStatusId = Some (ValueString (AgentStatusID data)),
      ui_InstanceId = Some (ValueString (InstanceID data)),
      ui_Name = Some (ValueString (Name data)),
      ui_State = ValueString (State data),
      ui_Description = Some (ValueString (Description data)),
      ui_DisplayOrder = (if ValueString (State data) = ''ENABLED''
                         then ValueInt32Pointer (DisplayOrder data) else None)\<rparr>"

definition update_failed :: "Response \<Rightarrow> api_error \<Rightarrow> Response" where
  "update_failed resp e =
     Diagnostics_AddError resp ''Error updating Connect Agent Status''
       (''Could not update Connect Agent Status, unexpected error: '' @ err_Error e)"

definition read_failed :: "Response \<Rightarrow> api_error \<Rightarrow> Response" where
  "read_failed resp e =
     Diagnostics_AddError resp ''Error reading Connect Agent Status''
       (''Could not read Connect Agent Status, unexpected error: '' @ err_Error e)"

definition read_decoded :: "ReadRequest \<Rightarrow> Response \<Rightarrow> Response" where
  "read_decoded req resp =
     Diagnostics_Append (Diagnostics_Append resp (fst (read_State_Get req))) (fst (read_Identity_Get req))"

definition refreshed :: "AgentStatusResourceModel \<Rightarrow> AgentStatus \<Rightarrow> AgentStatusResourceModel" where
  "refreshed data agentStatus =
     (let data = data\<lparr>AgentStatusID := Known (ToString (as_AgentStatusId agentStatus)),
                      Arn := Known (ToString (as_AgentStatusARN agentStatus)),
                      Description := Known (ToString (as_Description agentStatus)),
                      Name := Known (ToString (as_Name agentStatus)),
                      State := Known (as_State agentStatus)\<rparr>
      in if as_State agentStatus = ''ENABLED'' \<and> as_DisplayOrder agentStatus \<noteq> None
         then data\<lparr>DisplayOrder := Known (ToInt32 (as_DisplayOrder agentStatus))\<rparr>
         else data)"


subsection \<open>Payloads and results of the legacy variant\<close>

text \<open>
  The resource data after a successful read, the diagnostics and resource data of a read as
  a function of the result of the describe call, and the create and update inputs.
\<close>

definition legacy_refreshed :: "ResourceData \<Rightarrow> string \<Rightarrow> AgentStatus \<Rightarrow> ResourceData" where
  "legacy_refreshed d instanceID agentStatus =
     (let d = Set_attr d AttrARN (ToString (as_AgentStatusARN agentStatus));
          d = Set_attr d ''agent_status_id'' (ToString (as_AgentStatusId agentStatus));
          d = Set_attr d AttrInstanceID instanceID;
          d = Set_attr d AttrDescription (ToString (as_Description agentStatus));
          d = Set_attr d AttrName (ToString (as_Name agentStatus));
          d = Set_attr d AttrState (as_State agentStatus);
          d = Set_attr d ''type'' (as_Type agentStatus)
      in d)"

definition legacy_read_result ::
  "ResourceData \<Rightarrow> string \<Rightarrow> api_error + DescribeAgentStatusOutput option
   \<Rightarrow> diagnostic list \<times> ResourceData" where
  "legacy_read_result d instanceID res =
     (case res of
        Inl e \<Rightarrow>
          if \<not> IsNewResource d \<and> err_NotFound e then ([], SetId d [])
          else ([Diagnostic SeverityError
                   (''error getting Connect Agent Status ('' @ Id d @ ''): '' @ err_Error e) []], d)
      | Inr resp \<Rightarrow>
          (case Option.bind resp do_AgentStatus of
             None \<Rightarrow>
               ([Diagnostic SeverityError
                   (''error getting Connect Agent Status ('' @ Id d @ ''): empty response'') []], d)
           | Some agentStatus \<Rightarrow> ([], legacy_refreshed d instanceID agentStatus)))"

definition legacy_create_payload :: "Context \<Rightarrow> ResourceData \<Rightarrow> CreateAgentStatusInput" where
  "legacy_create_payload ctx d =
     \<lparr>ci_InstanceId = Some (Get d AttrInstanceID),
      ci_Name = Some (Get d AttrName),
      ci_State = Get d AttrState,
      ci_Description = (if Get d AttrDescription \<noteq> [] then Some (Get d AttrDescription) else None),
      ci_DisplayOrder = None,
      ci_Tags = TagsIn ctx\<rparr>"

definition legacy_update_payload :: "ResourceData \<Rightarrow> string \<Rightarrow> string \<Rightarrow> UpdateAgentStatusInput" where
  "legacy_update_payload d instanceID agentStatusID =
     \<lparr>ui_AgentStatusId = Some agentStatusID,
      ui_InstanceId = Some instanceID,
      ui_Name = Some (Get d AttrName),
      ui_State = Get d AttrState,
      ui_Description = Some (Get d AttrDescription),
      ui_DisplayOrder = None\<rparr>"

subsection \<open>The host after a delete\<close>

text \<open>
  Neither variant removes the record itself. The host does, once the delete function has
  returned without an error diagnostic: the framework's server then calls
  \<^verbatim>\<open>RemoveResource\<close> on the response state, and the legacy SDK then clears the identifier
  with \<^verbatim>\<open>SetId("")\<close>. These two steps of the plugin libraries are written down here so
  that the removal can be stated.
\<close>

definition DeleteResource ::
  "DeleteRequest \<Rightarrow> Response \<Rightarrow> 'r world \<Rightarrow> Response \<times> 'r world" where
  "DeleteResource req resp w =
     (case Delete req resp w of
        (resp1, w1) \<Rightarrow>
          (if \<not> HasError (resp_Diagnostics resp1) then resp1\<lparr>resp_State := None\<rparr> else resp1, w1))"

definition Resource_delete ::
  "'r Resource \<Rightarrow> Context \<Rightarrow> ResourceData \<Rightarrow> 'r ConnectClient \<Rightarrow> 'r world
   \<Rightarrow> diagnostic list \<times> ResourceData \<times> 'r world" where
  "Resource_delete r ctx d conn w =
     (case DeleteContext r ctx d conn w of
        (diags, d1, w1) \<Rightarrow> if HasError diags then (diags, d1, w1) else (diags, SetId d1 [], w1))"

subsection \<open>A concrete service for the examples\<close>

text \<open>
  A plan for the status \<open>Break\<close> of instance \<open>inst-1\<close>, and a service with two pages of
  statuses: \<open>Lunch\<close> on the first page, and twice \<open>Break\<close> on the second. The list call
  and the update call can be made to fail; the describe call answers with the not-found
  signal. \<open>empty_conn\<close> is a service whose calls succeed with nothing in the output.
  \<open>example_d\<close> is the resource data of the legacy variant for the same plan, with a given
  identifier, new-resource mark and prior name.
\<close>

definition example_data :: AgentStatusResourceModel where
  "example_data =
     \<lparr>Arn = Unknown, Description = Known ''Away'', AgentStatusID = Unknown,
      InstanceID = Known ''inst-1'', Name = Known ''Break'', State = Known ''ENABLED'',
      DisplayOrder = Known 3, ImportOnExists = Null\<rparr>"

definition example_conn :: "bool \<Rightarrow> bool \<Rightarrow> unit ConnectClient" where
  "example_conn list_fails update_fails =
     \<lparr>CreateAgentStatus = (\<lambda>inp r.
        (Inr (Some \<lparr>co_AgentStatusId = Some ''st-new'', co_AgentStatusARN = Some ''arn:new''\<rparr>), r)),
      DescribeAgentStatus = (\<lambda>inp r. (Inl (ApiError True ''no such status''), r)),
      UpdateAgentStatus = (\<lambda>inp r.
        (if update_fails then Some (ApiError False ''update refused'') else None, r)),
      ListAgentStatuses = (\<lambda>inp r.
        if list_fails then (Inl (ApiError False ''list refused''), r)
        else (case li_NextToken inp of
                None \<Rightarrow>
                  (Inr (Some \<lparr>lo_AgentStatusSummaryList =
                                [\<lparr>s_Arn = Some ''arn:1'', s_Id = Some ''st-1'', s_Name = Some ''Lunch''\<rparr>],
                              lo_NextToken = Some ''page2''\<rparr>), r)
              | Some t \<Rightarrow>
                  (Inr (Some \<lparr>lo_AgentStatusSummaryList =
                                [\<lparr>s_Arn = Some ''arn:2'', s_Id = Some ''st-2'', s_Name = Some ''Break''\<rparr>,
                                 \<lparr>s_Arn = Some ''arn:3'', s_Id = Some ''st-3'', s_Name = Some ''Break''\<rparr>],
                              lo_NextToken = None\<rparr>), r)))\<rparr>"

definition empty_conn :: "unit ConnectClient" where
  "empty_conn =
     \<lparr>CreateAgentStatus = (\<lambda>inp r. (Inr None, r)),
      DescribeAgentStatus = (\<lambda>inp r. (Inr (Some \<lparr>do_AgentStatus = None\<rparr>), r)),
      UpdateAgentStatus = (\<lambda>inp r. (None, r)),
      ListAgentStatuses = (\<lambda>inp r.
        (Inr (Some \<lparr>lo_AgentStatusSummaryList = [], lo_NextToken = None\<rparr>), r))\<rparr>"

definition example_create_request :: "bool tfvalue \<Rightarrow> CreateRequest" where
  "example_create_request importOnExists =
     \<lparr>create_Plan_Get = ([], example_data),
      create_Config_GetAttribute_import_on_exists = ([], importOnExists)\<rparr>"


definition empty_response :: Response where
  "empty_response = \<lparr>resp_Diagnostics = [], resp_State = None, resp_Identity = None\<rparr>"

definition example_world :: "unit world" where
  "example_world = \<lparr>remote = (), calls = []\<rparr>"

definition example_tracked :: AgentStatusResourceModel where
  "example_tracked = example_data\<lparr>AgentStatusID := Known ''st-2'', Arn := Known ''arn:2''\<rparr>"

definition tracked_response :: Response where
  "tracked_response =
     \<lparr>resp_Diagnostics = [], resp_State = Some example_tracked,
      resp_Identity = Some \<lparr>id_Arn = Known ''arn:2'', id_AgentStatusID = Known ''st-2''\<rparr>\<rparr>"

definition example_read_request :: ReadRequest where
  "example_read_request =
     \<lparr>read_State_Get = ([], example_tracked),
      read_Identity_Get = ([], \<lparr>id_Arn = Known ''arn:2'', id_AgentStatusID = Known ''st-2''\<rparr>)\<rparr>"

definition example_update_request :: UpdateRequest where
  "example_update_request = \<lparr>update_Plan_Get = ([], example_tracked)\<rparr>"

definition example_delete_request :: DeleteRequest where
  "example_delete_request = \<lparr>delete_State_Get = ([], example_tracked)\<rparr>"

definition example_ctx :: Context where
  "example_ctx = \<lparr>TagsIn = []\<rparr>"

definition example_d :: "string \<Rightarrow> bool \<Rightarrow> string \<Rightarrow> ResourceData" where
  "example_d id' isNew priorName =
     \<lparr>rd_Id = id', rd_isNew = isNew,
      rd_state = (\<lambda>k. if k = ''instance_id'' then ''inst-1''
                      else if k = ''name'' then priorName
                      else if k = ''state'' then ''ENABLED''
                      else if k = ''description'' then ''Away''
                      else []),
      rd_plan = (\<lambda>k. if k = ''instance_id'' then ''inst-1''
                     else if k = ''name'' then ''Break''
                     else if k = ''state'' then ''ENABLED''
                     else if k = ''description'' then ''Away''
                     else []),
      rd_set = Map.empty\<rparr>"

section \<open>Properties of the identifier codec\<close>

lemma SplitN_2_append:
  "sep \<notin> set i \<Longrightarrow> SplitN_2 (i @ sep # a) sep = [i, a]"
proof -
  assume i: "sep \<notin> set i"
  then have "takeWhile (\<lambda>c. c \<noteq> sep) (i @ sep # a) = i"
    by (induction i) auto
  moreover from i have "dropWhile (\<lambda>c. c \<noteq> sep) (i @ sep # a) = sep # a"
    by (induction i) auto
  ultimately show ?thesis by (simp add: SplitN_2_def)
qed

lemma SplitN_2_no_sep:
  "sep \<notin> set s \<Longrightarrow> SplitN_2 s sep = [s]"
  by (simp add: SplitN_2_def)

lemma SplitN_2_sep:
  "sep \<in> set s \<Longrightarrow>
   \<exists>i a. s = i @ sep # a \<and> sep \<notin> set i \<and> SplitN_2 s sep = [i, a]"
proof -
  assume mem: "sep \<in> set s"
  let ?i = "takeWhile (\<lambda>c. c \<noteq> sep) s"
  let ?r = "dropWhile (\<lambda>c. c \<noteq> sep) s"
  from mem have "?r \<noteq> []" by (simp add: dropWhile_eq_Nil_conv)
  moreover have "\<not> (hd ?r \<noteq> sep)" if "?r \<noteq> []"
    using that hd_dropWhile [of "\<lambda>c. c \<noteq> sep" s] by blast
  ultimately have r: "?r = sep # tl ?r" by (cases ?r) auto
  have "s = ?i @ ?r" by simp
  with r have s: "s = ?i @ sep # tl ?r" by simp
  have "sep \<notin> set ?i" using set_takeWhileD by fastforce
  with s mem show ?thesis unfolding SplitN_2_def by auto
qed

text \<open>
  Claim C4. For every pair of a non-empty instance identifier and a non-empty agent status
  identifier, neither containing a colon, parsing the identifier that Create stores
  (\<open>instance_id + ":" + agent_status_id\<close>) returns exactly that pair.
\<close>

theorem AgentStatusParseID_roundtrip:
  assumes "i \<noteq> []" and "a \<noteq> []"
    and "CHR '':'' \<notin> set i" and "CHR '':'' \<notin> set a"
  shows "AgentStatusParseID (AgentStatusCreateID i a) = Inr (i, a)"
  using assms
  by (simp add: AgentStatusParseID_def AgentStatusCreateID_def SplitN_2_append)

theorem AgentStatusParseID_roundtrip_witness:
  "''inst-1'' \<noteq> [] \<and> ''st-9'' \<noteq> [] \<and> CHR '':'' \<notin> set ''inst-1'' \<and> CHR '':'' \<notin> set ''st-9''
   \<and> AgentStatusCreateID ''inst-1'' ''st-9'' = ''inst-1:st-9''
   \<and> AgentStatusParseID ''inst-1:st-9'' = Inr (''inst-1'', ''st-9'')"
  using AgentStatusParseID_roundtrip [of "''inst-1''" "''st-9''"]
  by (simp add: AgentStatusCreateID_def)

text \<open>
  Claim C5. Parsing fails with the malformed-identifier error for every input that is not
  of the shape \<open>i + ":" + a\<close> with \<open>i\<close> non-empty and free of colons (so that the colon
  is the first one) and \<open>a\<close> non-empty; in particular for \<open>"abc"\<close>, \<open>":abc"\<close> and
  \<open>"abc:"\<close>.
\<close>

theorem AgentStatusParseID_malformed:
  assumes "\<not> (\<exists>i a. i \<noteq> [] \<and> a \<noteq> [] \<and> CHR '':'' \<notin> set i \<and> s = i @ CHR '':'' # a)"
  shows "AgentStatusParseID s = Inl (UnexpectedFormat s)"
proof (cases "CHR '':'' \<in> set s")
  case False
  then show ?thesis
    by (simp add: AgentStatusParseID_def SplitN_2_no_sep)
next
  case True
  from SplitN_2_sep [OF True] obtain i a
    where s: "s = i @ CHR '':'' # a" and i: "CHR '':'' \<notin> set i"
      and sp: "SplitN_2 s CHR '':'' = [i, a]" by blast
  from assms s i have "i = [] \<or> a = []" by blast
  with sp show ?thesis
    by (auto simp: AgentStatusParseID_def)
qed

lemma no_colon_no_shape:
  "CHR '':'' \<notin> set s \<Longrightarrow>
   \<not> (\<exists>i a. i \<noteq> [] \<and> a \<noteq> [] \<and> CHR '':'' \<notin> set i \<and> s = i @ CHR '':'' # a)"
  by auto

lemma shape_unique:
  "CHR '':'' \<notin> set i \<Longrightarrow> CHR '':'' \<notin> set j \<Longrightarrow>
   i @ CHR '':'' # a = j @ CHR '':'' # b \<Longrightarrow> i = j \<and> a = b"
proof (induction i arbitrary: j)
  case Nil
  then show ?case by (cases j) auto
next
  case (Cons x i)
  then show ?case by (cases j) auto
qed

theorem AgentStatusParseID_malformed_witness:
  "AgentStatusParseID ''abc'' = Inl (UnexpectedFormat ''abc'')
   \<and> AgentStatusParseID '':abc'' = Inl (UnexpectedFormat '':abc'')
   \<and> AgentStatusParseID ''abc:'' = Inl (UnexpectedFormat ''abc:'')"
proof -
  have a: "\<not> (\<exists>i a. i \<noteq> [] \<and> a \<noteq> [] \<and> CHR '':'' \<notin> set i \<and> ''abc'' = i @ CHR '':'' # a)"
    by (rule no_colon_no_shape) simp
  have b: "\<not> (\<exists>i a. i \<noteq> [] \<and> a \<noteq> [] \<and> CHR '':'' \<notin> set i \<and> '':abc'' = i @ CHR '':'' # a)"
  proof
    assume "\<exists>i a. i \<noteq> [] \<and> a \<noteq> [] \<and> CHR '':'' \<notin> set i \<and> '':abc'' = i @ CHR '':'' # a"
    then obtain i a where "i \<noteq> []" and "CHR '':'' \<notin> set i" and "[] @ CHR '':'' # ''abc'' = i @ CHR '':'' # a"
      by auto
    with shape_unique [of "[]" i "''abc''" a] show False by simp
  qed
  have c: "\<not> (\<exists>i a. i \<noteq> [] \<and> a \<noteq> [] \<and> CHR '':'' \<notin> set i \<and> ''abc:'' = i @ CHR '':'' # a)"
  proof
    assume "\<exists>i a. i \<noteq> [] \<and> a \<noteq> [] \<and> CHR '':'' \<notin> set i \<and> ''abc:'' = i @ CHR '':'' # a"
    then obtain i a where "a \<noteq> []" and "CHR '':'' \<notin> set i" and "''abc'' @ CHR '':'' # [] = i @ CHR '':'' # a"
      by auto
    with shape_unique [of "''abc''" i "[]" a] show False by simp
  qed
  from AgentStatusParseID_malformed [OF a] AgentStatusParseID_malformed [OF b]
    AgentStatusParseID_malformed [OF c]
  show ?thesis by simp
qed

section \<open>Properties of the framework variant\<close>

subsection \<open>The log, diagnostics and the adoption\<close>

lemma find_append_list:
  "find P (xs @ ys) = (case find P xs of None \<Rightarrow> find P ys | Some x \<Rightarrow> Some x)"
  by (induction xs) auto

lemma listed_append: "listed (xs @ ys) = listed xs @ listed ys"
  by (induction xs rule: listed.induct) auto

lemma conn_ListAgentStatuses_calls:
  "conn_ListAgentStatuses conn inp w = (res, w1) \<Longrightarrow> calls w1 = calls w @ [EvList inp res]"
  by (auto simp: conn_ListAgentStatuses_def split: prod.splits)

lemma conn_UpdateAgentStatus_calls:
  "conn_UpdateAgentStatus conn inp w = (res, w1) \<Longrightarrow> calls w1 = calls w @ [EvUpdate inp res]"
  by (auto simp: conn_UpdateAgentStatus_def split: prod.splits)

lemma conn_CreateAgentStatus_calls:
  "conn_CreateAgentStatus conn inp w = (res, w1) \<Longrightarrow> calls w1 = calls w @ [EvCreate inp res]"
  by (auto simp: conn_CreateAgentStatus_def split: prod.splits)

lemma conn_DescribeAgentStatus_calls:
  "conn_DescribeAgentStatus conn inp w = (res, w1) \<Longrightarrow> calls w1 = calls w @ [EvDescribe inp res]"
  by (auto simp: conn_DescribeAgentStatus_def split: prod.splits)

lemma all_EvList_no_EvCreate: "list_all is_EvList es \<Longrightarrow> \<not> list_ex is_EvCreate es"
  by (induction es) (auto elim: is_EvList.elims)

lemma AddError_member:
  "Diagnostic SeverityError summary detail \<in> set (AddError summary detail diags)"
  by (simp add: AddError_def)

lemma Append_keeps: "d \<in> set diags \<Longrightarrow> d \<in> set (Append diags ds)"
  by (induction ds arbitrary: diags) auto

lemma HasError_member: "d \<in> set diags \<Longrightarrow> Severity d = SeverityError \<Longrightarrow> HasError diags"
  by (auto simp: HasError_def list_ex_iff)

lemma HasError_AddError: "HasError (AddError summary detail diags)"
  using AddError_member [of summary detail diags] by (rule HasError_member) simp

lemma HasError_Append: "HasError diags \<Longrightarrow> HasError (Append diags ds)"
  unfolding HasError_def list_ex_iff using Append_keeps by blast

lemma Create_adopt_spec:
  "\<exists>ures w1. Create_adopt conn data st resp w =
      (\<lparr>resp_Diagnostics =
          (case ures of
             None \<Rightarrow> resp_Diagnostics resp
           | Some e \<Rightarrow> AddError ''Error updating Connect Agent Status''
               (''Could not update Connect Agent Status, unexpected error: '' @ err_Error e)
               (resp_Diagnostics resp)),
        resp_State = Some (adopted data st),
        resp_Identity = Some \<lparr>id_Arn = Known (ToString (s_Arn st)),
                               id_AgentStatusID = Known (ToString (s_Id st))\<rparr>\<rparr>, w1)
    \<and> calls w1 = calls w @
        [EvUpdate \<lparr>ui_AgentStatusId = Some (ToString (s_Id st)),
                   ui_InstanceId = Some (ValueString (InstanceID data)),
                   ui_Name = Some (ValueString (Name data)),
                   ui_State = ValueString (State data),
                   ui_Description = Some (ValueString (Description data)),
                   ui_DisplayOrder = (if ValueString (State data) = ''ENABLED''
                                      then ValueInt32Pointer (DisplayOrder data) else None)\<rparr> ures]"
proof -
  obtain ures w1 where u: "updateAgentStatus (adopted data st) conn w = (ures, w1)"
    by (cases "updateAgentStatus (adopted data st) conn w")
  then have "calls w1 = calls w @
        [EvUpdate \<lparr>ui_AgentStatusId = Some (ToString (s_Id st)),
                   ui_InstanceId = Some (ValueString (InstanceID data)),
                   ui_Name = Some (ValueString (Name data)),
                   ui_State = ValueString (State data),
                   ui_Description = Some (ValueString (Description data)),
                   ui_DisplayOrder = (if ValueString (State data) = ''ENABLED''
                                      then ValueInt32Pointer (DisplayOrder data) else None)\<rparr> ures]"
    by (auto simp: updateAgentStatus_def adopted_def Let_def AgentStatusStateEnabled_def
        dest!: conn_UpdateAgentStatus_calls split: if_splits)
  moreover from u have "Create_adopt conn data st resp w =
      (\<lparr>resp_Diagnostics =
          (case ures of
             None \<Rightarrow> resp_Diagnostics resp
           | Some e \<Rightarrow> AddError ''Error updating Connect Agent Status''
               (''Could not update Connect Agent Status, unexpected error: '' @ err_Error e)
               (resp_Diagnostics resp)),
        resp_State = Some (adopted data st),
        resp_Identity = Some \<lparr>id_Arn = Known (ToString (s_Arn st)),
                               id_AgentStatusID = Known (ToString (s_Id st))\<rparr>\<rparr>, w1)"
    by (simp add: Create_adopt_def adopted_def Let_def Diagnostics_AddError_def split: option.splits)
  ultimately show ?thesis by blast
qed

lemma Create_adopt_eq:
  "\<exists>ures w1. Create_adopt conn data st resp w = (adopt_response data st resp ures, w1)
     \<and> calls w1 = calls w @ [EvUpdate (adopt_update data st) ures]"
  using Create_adopt_spec [of conn data st resp w]
  by (simp add: adopt_response_def adopt_update_def)

subsection \<open>The scan\<close>

lemma scan_step_match:
  assumes l: "conn_ListAgentStatuses conn
       \<lparr>li_InstanceId = Some (ValueString (InstanceID data)), li_NextToken = tok\<rparr> w = (Inr (Some p), w1)"
    and f: "find (\<lambda>status. ToString (s_Name status) = ValueString (Name data))
           (lo_AgentStatusSummaryList p) = Some st"
  shows "\<exists>exit w' evs. Create_scan conn data tok resp w = Some (exit, w')
           \<and> calls w' = calls w @ evs \<and> scan_post data tok resp exit evs"
proof -
  from Create_adopt_eq [of conn data st resp w1] obtain ures w2
    where a: "Create_adopt conn data st resp w1 = (adopt_response data st resp ures, w2)"
      and c: "calls w2 = calls w1 @ [EvUpdate (adopt_update data st) ures]" by blast
  let ?inp = "\<lparr>li_InstanceId = Some (ValueString (InstanceID data)), li_NextToken = tok\<rparr>"
  let ?evs = "[EvList ?inp (Inr (Some p)), EvUpdate (adopt_update data st) ures]"
  have "Create_scan conn data tok resp w = Some (ScanReturn (adopt_response data st resp ures), w2)"
    by (subst Create_scan.simps) (simp add: l f a)
  moreover have "calls w2 = calls w @ ?evs"
    using c conn_ListAgentStatuses_calls [OF l] by simp
  moreover have "scan_post data tok resp (ScanReturn (adopt_response data st resp ures)) ?evs"
    by (simp add: scan_post_def f)
  ultimately show ?thesis by blast
qed

text \<open>
  When the scan halts in the sense of \<open>scan_halts\<close>, the loop returns a result, and the
  calls it logged and the way it left are as \<open>scan_post\<close> says. The proof follows the
  derivation of \<open>scan_halts\<close>, unfolding the loop once per list call.
\<close>

lemma Create_scan_halts:
  assumes "scan_halts conn data tok w"
  shows "\<exists>exit w' evs. Create_scan conn data tok resp w = Some (exit, w')
           \<and> calls w' = calls w @ evs \<and> scan_post data tok resp exit evs"
  using assms
proof (induction rule: scan_halts.induct)
  case (halts_error nextToken w e w1)
  let ?inp = "\<lparr>li_InstanceId = Some (ValueString (InstanceID data)), li_NextToken = nextToken\<rparr>"
  have "Create_scan conn data nextToken resp w = Some (ScanBreak (list_failed resp e), w1)"
    by (subst Create_scan.simps) (simp add: halts_error list_failed_def)
  moreover have "calls w1 = calls w @ [EvList ?inp (Inl e)]"
    using conn_ListAgentStatuses_calls [OF halts_error] .
  moreover have "scan_post data nextToken resp (ScanBreak (list_failed resp e)) [EvList ?inp (Inl e)]"
    by (simp add: scan_post_def)
  ultimately show ?case by blast
next
  case (halts_nil nextToken w w1)
  let ?inp = "\<lparr>li_InstanceId = Some (ValueString (InstanceID data)), li_NextToken = nextToken\<rparr>"
  have "Create_scan conn data nextToken resp w = Some (ScanPanic, w1)"
    by (subst Create_scan.simps) (simp add: halts_nil)
  moreover have "calls w1 = calls w @ [EvList ?inp (Inr None)]"
    using conn_ListAgentStatuses_calls [OF halts_nil] .
  moreover have "scan_post data nextToken resp ScanPanic [EvList ?inp (Inr None)]"
    by (simp add: scan_post_def)
  ultimately show ?case by blast
next
  case (halts_match nextToken w p w1 st)
  then show ?case by (rule scan_step_match)
next
  case (halts_last nextToken w p w1)
  show ?case
  proof (cases "find (\<lambda>status. ToString (s_Name status) = ValueString (Name data))
           (lo_AgentStatusSummaryList p)")
    case (Some st)
    with halts_last(1) show ?thesis by (rule scan_step_match)
  next
    case None
    let ?inp = "\<lparr>li_InstanceId = Some (ValueString (InstanceID data)), li_NextToken = nextToken\<rparr>"
    have "Create_scan conn data nextToken resp w = Some (ScanBreak resp, w1)"
      by (subst Create_scan.simps) (simp add: halts_last None)
    moreover have "calls w1 = calls w @ [EvList ?inp (Inr (Some p))]"
      using conn_ListAgentStatuses_calls [OF halts_last(1)] .
    moreover have "scan_post data nextToken resp (ScanBreak resp) [EvList ?inp (Inr (Some p))]"
      by (simp add: scan_post_def None)
    ultimately show ?thesis by blast
  qed
next
  case (halts_next nextToken w p w1 t)
  show ?case
  proof (cases "find (\<lambda>status. ToString (s_Name status) = ValueString (Name data))
           (lo_AgentStatusSummaryList p)")
    case (Some st)
    with halts_next(1) show ?thesis by (rule scan_step_match)
  next
    case None
    let ?inp = "\<lparr>li_InstanceId = Some (ValueString (InstanceID data)), li_NextToken = nextToken\<rparr>"
    from halts_next.IH obtain exit w' evs
      where s: "Create_scan conn data (Some t) resp w1 = Some (exit, w')"
        and c: "calls w' = calls w1 @ evs" and post: "scan_post data (Some t) resp exit evs"
      by blast
    have "Create_scan conn data nextToken resp w = Some (exit, w')"
      by (subst Create_scan.simps) (simp add: halts_next None s)
    moreover have "calls w' = calls w @ EvList ?inp (Inr (Some p)) # evs"
      using c conn_ListAgentStatuses_calls [OF halts_next(1)] by simp
    moreover have "scan_post data nextToken resp exit (EvList ?inp (Inr (Some p)) # evs)"
    proof -
      from post obtain res es where evs: "evs = EvList \<lparr>li_InstanceId = Some (ValueString (InstanceID data)), li_NextToken = Some t\<rparr> res # es"
        unfolding scan_post_def by blast
      have fl: "find (\<lambda>status. ToString (s_Name status) = ValueString (Name data))
                 (listed (EvList ?inp (Inr (Some p)) # evs))
               = find (\<lambda>status. ToString (s_Name status) = ValueString (Name data)) (listed evs)"
        by (simp add: find_append_list None)
      have la: "last (EvList ?inp (Inr (Some p)) # evs) = last evs" using evs by simp
      from post have p1: "case find (\<lambda>status. ToString (s_Name status) = ValueString (Name data)) (listed evs) of
          Some st \<Rightarrow>
            (\<exists>pre ures. evs = pre @ [EvUpdate (adopt_update data st) ures] \<and> list_all is_EvList pre
               \<and> exit = ScanReturn (adopt_response data st resp ures))
        | None \<Rightarrow>
            list_all is_EvList evs
            \<and> (case last evs of
                 EvList _ (Inl e) \<Rightarrow> exit = ScanBreak (list_failed resp e)
               | EvList _ (Inr None) \<Rightarrow> exit = ScanPanic
               | _ \<Rightarrow> exit = ScanBreak resp)"
        and p2: "\<forall>inp e. EvList inp (Inl e) \<in> set evs \<longrightarrow>
                   exit = ScanBreak (list_failed resp e) \<and> (\<exists>pre. evs = pre @ [EvList inp (Inl e)])"
        unfolding scan_post_def by blast+
      have c2: "case find (\<lambda>status. ToString (s_Name status) = ValueString (Name data)) (listed evs) of
          Some st \<Rightarrow>
            (\<exists>pre ures. EvList ?inp (Inr (Some p)) # evs = pre @ [EvUpdate (adopt_update data st) ures]
               \<and> list_all is_EvList pre
               \<and> exit = ScanReturn (adopt_response data st resp ures))
        | None \<Rightarrow>
            list_all is_EvList (EvList ?inp (Inr (Some p)) # evs)
            \<and> (case last evs of
                 EvList _ (Inl e) \<Rightarrow> exit = ScanBreak (list_failed resp e)
               | EvList _ (Inr None) \<Rightarrow> exit = ScanPanic
               | _ \<Rightarrow> exit = ScanBreak resp)"
      proof (cases "find (\<lambda>status. ToString (s_Name status) = ValueString (Name data)) (listed evs)")
        case None
        with p1 show ?thesis by simp
      next
        case (Some st)
        with p1 obtain pre ures where "evs = pre @ [EvUpdate (adopt_update data st) ures]"
          and "list_all is_EvList pre" and "exit = ScanReturn (adopt_response data st resp ures)"
          by auto
        then have "EvList ?inp (Inr (Some p)) # evs = (EvList ?inp (Inr (Some p)) # pre) @ [EvUpdate (adopt_update data st) ures]
            \<and> list_all is_EvList (EvList ?inp (Inr (Some p)) # pre)
            \<and> exit = ScanReturn (adopt_response data st resp ures)" by simp
        then show ?thesis unfolding Some by (simp only: option.case) blast
      qed
      have c3: "\<forall>inp e. EvList inp (Inl e) \<in> set (EvList ?inp (Inr (Some p)) # evs)
                  \<longrightarrow> exit = ScanBreak (list_failed resp e)
                     \<and> (\<exists>pre. EvList ?inp (Inr (Some p)) # evs = pre @ [EvList inp (Inl e)])"
      proof (intro allI impI)
        fix inp e
        assume "EvList inp (Inl e) \<in> set (EvList ?inp (Inr (Some p)) # evs)"
        then have "EvList inp (Inl e) \<in> set evs" by simp
        with p2 obtain pre where "exit = ScanBreak (list_failed resp e)"
          and "evs = pre @ [EvList inp (Inl e)]" by blast
        then have "EvList ?inp (Inr (Some p)) # evs = (EvList ?inp (Inr (Some p)) # pre) @ [EvList inp (Inl e)]"
          by simp
        with \<open>exit = ScanBreak (list_failed resp e)\<close>
        show "exit = ScanBreak (list_failed resp e)
                     \<and> (\<exists>pre. EvList ?inp (Inr (Some p)) # evs = pre @ [EvList inp (Inl e)])"
          by blast
      qed
      show ?thesis
        unfolding scan_post_def fl la
        using c2 c3 by blast
    qed
    ultimately show ?thesis by blast
  qed
qed

lemma scan_post_find:
  assumes "scan_post data tok resp exit evs"
  shows "case find (\<lambda>status. ToString (s_Name status) = ValueString (Name data)) (listed evs) of
          Some st \<Rightarrow>
            (\<exists>pre ures. evs = pre @ [EvUpdate (adopt_update data st) ures] \<and> list_all is_EvList pre
               \<and> exit = ScanReturn (adopt_response data st resp ures))
        | None \<Rightarrow>
            list_all is_EvList evs
            \<and> (case last evs of
                 EvList _ (Inl e) \<Rightarrow> exit = ScanBreak (list_failed resp e)
               | EvList _ (Inr None) \<Rightarrow> exit = ScanPanic
               | _ \<Rightarrow> exit = ScanBreak resp)"
  using assms unfolding scan_post_def by blast

lemma scan_post_failed:
  assumes "scan_post data tok resp exit evs" and "EvList inp (Inl e) \<in> set evs"
  shows "exit = ScanBreak (list_failed resp e)" and "\<exists>pre. evs = pre @ [EvList inp (Inl e)]"
  using assms unfolding scan_post_def by blast+

lemma scan_post_not_return:
  assumes "scan_post data tok resp exit evs" and "\<forall>r. exit \<noteq> ScanReturn r"
  shows "find (\<lambda>status. ToString (s_Name status) = ValueString (Name data)) (listed evs) = None"
    and "list_all is_EvList evs"
  using scan_post_find [OF assms(1)] assms(2) by (auto split: option.splits)

text \<open>
  The calls the loop logged are the list calls of a paginated scan of the service, in the
  sense of \<open>scan_log\<close>, followed by calls that are not list calls.
\<close>

lemma conn_ListAgentStatuses_remote:
  "conn_ListAgentStatuses conn inp w = (res, w1) \<Longrightarrow>
   ListAgentStatuses conn inp (remote w) = (res, remote w1)"
  by (auto simp: conn_ListAgentStatuses_def split: prod.splits)

lemma scan_log_step_match:
  assumes l: "conn_ListAgentStatuses conn
       \<lparr>li_InstanceId = Some (ValueString (InstanceID data)), li_NextToken = tok\<rparr> w = (Inr (Some p), w1)"
    and f: "find (\<lambda>status. ToString (s_Name status) = ValueString (Name data))
           (lo_AgentStatusSummaryList p) = Some st"
  shows "\<exists>exit w' pre rest. Create_scan conn data tok resp w = Some (exit, w')
           \<and> calls w' = calls w @ pre @ rest
           \<and> scan_log conn data tok (remote w) pre \<and> \<not> list_ex is_EvList rest"
proof -
  from Create_adopt_eq [of conn data st resp w1] obtain ures w2
    where a: "Create_adopt conn data st resp w1 = (adopt_response data st resp ures, w2)"
      and c: "calls w2 = calls w1 @ [EvUpdate (adopt_update data st) ures]" by blast
  let ?inp = "\<lparr>li_InstanceId = Some (ValueString (InstanceID data)), li_NextToken = tok\<rparr>"
  have "Create_scan conn data tok resp w = Some (ScanReturn (adopt_response data st resp ures), w2)"
    by (subst Create_scan.simps) (simp add: l f a)
  moreover have "calls w2 = calls w @ [EvList ?inp (Inr (Some p))] @ [EvUpdate (adopt_update data st) ures]"
    using c conn_ListAgentStatuses_calls [OF l] by simp
  moreover have "scan_log conn data tok (remote w) [EvList ?inp (Inr (Some p))]"
    using conn_ListAgentStatuses_remote [OF l] by (simp add: f)
  moreover have "\<not> list_ex is_EvList [EvUpdate (adopt_update data st) ures]" by simp
  ultimately show ?thesis by blast
qed

lemma Create_scan_log:
  assumes "scan_halts conn data tok w"
  shows "\<exists>exit w' pre rest. Create_scan conn data tok resp w = Some (exit, w')
           \<and> calls w' = calls w @ pre @ rest
           \<and> scan_log conn data tok (remote w) pre \<and> \<not> list_ex is_EvList rest"
  using assms
proof (induction rule: scan_halts.induct)
  case (halts_error nextToken w e w1)
  let ?inp = "\<lparr>li_InstanceId = Some (ValueString (InstanceID data)), li_NextToken = nextToken\<rparr>"
  have "Create_scan conn data nextToken resp w = Some (ScanBreak (list_failed resp e), w1)"
    by (subst Create_scan.simps) (simp add: halts_error list_failed_def)
  moreover have "calls w1 = calls w @ [EvList ?inp (Inl e)] @ []"
    using conn_ListAgentStatuses_calls [OF halts_error] by simp
  moreover have "scan_log conn data nextToken (remote w) [EvList ?inp (Inl e)]"
    using conn_ListAgentStatuses_remote [OF halts_error] by simp
  moreover have "\<not> list_ex is_EvList []" by simp
  ultimately show ?case by blast
next
  case (halts_nil nextToken w w1)
  let ?inp = "\<lparr>li_InstanceId = Some (ValueString (InstanceID data)), li_NextToken = nextToken\<rparr>"
  have "Create_scan conn data nextToken resp w = Some (ScanPanic, w1)"
    by (subst Create_scan.simps) (simp add: halts_nil)
  moreover have "calls w1 = calls w @ [EvList ?inp (Inr None)] @ []"
    using conn_ListAgentStatuses_calls [OF halts_nil] by simp
  moreover have "scan_log conn data nextToken (remote w) [EvList ?inp (Inr None)]"
    using conn_ListAgentStatuses_remote [OF halts_nil] by simp
  moreover have "\<not> list_ex is_EvList []" by simp
  ultimately show ?case by blast
next
  case (halts_match nextToken w p w1 st)
  then show ?case by (rule scan_log_step_match)
next
  case (halts_last nextToken w p w1)
  show ?case
  proof (cases "find (\<lambda>status. ToString (s_Name status) = ValueString (Name data))
           (lo_AgentStatusSummaryList p)")
    case (Some st)
    with halts_last(1) show ?thesis by (rule scan_log_step_match)
  next
    case None
    let ?inp = "\<lparr>li_InstanceId = Some (ValueString (InstanceID data)), li_NextToken = nextToken\<rparr>"
    have "Create_scan conn data nextToken resp w = Some (ScanBreak resp, w1)"
      by (subst Create_scan.simps) (simp add: halts_last None)
    moreover have "calls w1 = calls w @ [EvList ?inp (Inr (Some p))] @ []"
      using conn_ListAgentStatuses_calls [OF halts_last(1)] by simp
    moreover have "scan_log conn data nextToken (remote w) [EvList ?inp (Inr (Some p))]"
      using conn_ListAgentStatuses_remote [OF halts_last(1)] by (simp add: None halts_last(2))
    moreover have "\<not> list_ex is_EvList []" by simp
    ultimately show ?thesis by blast
  qed
next
  case (halts_next nextToken w p w1 t)
  show ?case
  proof (cases "find (\<lambda>status. ToString (s_Name status) = ValueString (Name data))
           (lo_AgentStatusSummaryList p)")
    case (Some st)
    with halts_next(1) show ?thesis by (rule scan_log_step_match)
  next
    case None
    let ?inp = "\<lparr>li_InstanceId = Some (ValueString (InstanceID data)), li_NextToken = nextToken\<rparr>"
    from halts_next.IH obtain exit w' pre rest
      where s: "Create_scan conn data (Some t) resp w1 = Some (exit, w')"
        and c: "calls w' = calls w1 @ pre @ rest"
        and lg: "scan_log conn data (Some t) (remote w1) pre"
        and nr: "\<not> list_ex is_EvList rest"
      by blast
    have "Create_scan conn data nextToken resp w = Some (exit, w')"
      by (subst Create_scan.simps) (simp add: halts_next None s)
    moreover have "calls w' = calls w @ (EvList ?inp (Inr (Some p)) # pre) @ rest"
      using c conn_ListAgentStatuses_calls [OF halts_next(1)] by simp
    moreover have "scan_log conn data nextToken (remote w) (EvList ?inp (Inr (Some p)) # pre)"
      using conn_ListAgentStatuses_remote [OF halts_next(1)] lg by (simp add: None halts_next(2))
    ultimately show ?thesis using nr by blast
  qed
qed

subsection \<open>Create as a whole\<close>

lemma Create_call_spec:
  "\<exists>res w1. Create_call conn input data resp w = (create_outcome data resp res, w1)
      \<and> calls w1 = calls w @ [EvCreate input res]"
proof -
  obtain res w1 where c: "conn_CreateAgentStatus conn input w = (res, w1)"
    by (cases "conn_CreateAgentStatus conn input w")
  then have "Create_call conn input data resp w = (create_outcome data resp res, w1)"
    by (simp add: Create_call_def create_outcome_def create_failed_def created_def Let_def
        split: sum.splits option.splits)
  with conn_CreateAgentStatus_calls [OF c] show ?thesis by blast
qed


lemma Create_unfold:
  assumes "\<not> HasError (resp_Diagnostics (decoded req resp))"
  shows "Create conn req resp w =
     (if IsNull (snd (create_Config_GetAttribute_import_on_exists req))
         \<or> IsUnknown (snd (create_Config_GetAttribute_import_on_exists req))
         \<or> ValueBool (snd (create_Config_GetAttribute_import_on_exists req))
      then (case Create_scan conn (snd (create_Plan_Get req)) None (decoded req resp) w of
              None \<Rightarrow> None
            | Some (ScanReturn resp1, w1) \<Rightarrow> Some (Returned resp1, w1)
            | Some (ScanPanic, w1) \<Rightarrow> Some (Panic, w1)
            | Some (ScanBreak resp1, w1) \<Rightarrow>
                Some (Create_call conn (create_payload (snd (create_Plan_Get req)))
                        (snd (create_Plan_Get req)) resp1 w1))
      else Some (Create_call conn (create_payload (snd (create_Plan_Get req)))
                   (snd (create_Plan_Get req)) (decoded req resp) w))"
proof (cases "ValueString (State (snd (create_Plan_Get req))) = ''ENABLED''")
  case True
  with assms show ?thesis
    by (simp add: Create_def decoded_def Let_def create_payload_def AgentStatusStateEnabled_def
        split: option.splits prod.splits scan_exit.splits)
next
  case False
  with assms show ?thesis
    by (simp add: Create_def decoded_def Let_def create_payload_def AgentStatusStateEnabled_def
        split: option.splits prod.splits scan_exit.splits)
qed

lemma Create_without_scan:
  assumes "\<not> HasError (resp_Diagnostics (decoded req resp))"
    and "\<not> (IsNull (snd (create_Config_GetAttribute_import_on_exists req))
         \<or> IsUnknown (snd (create_Config_GetAttribute_import_on_exists req))
         \<or> ValueBool (snd (create_Config_GetAttribute_import_on_exists req)))"
  shows "\<exists>res w1. Create conn req resp w =
            Some (create_outcome (snd (create_Plan_Get req)) (decoded req resp) res, w1)
          \<and> calls w1 = calls w @ [EvCreate (create_payload (snd (create_Plan_Get req))) res]"
  using Create_call_spec [of conn "create_payload (snd (create_Plan_Get req))"
      "snd (create_Plan_Get req)" "decoded req resp" w] assms
  by (simp only: Create_unfold [OF assms(1)] if_False) blast

lemma Create_with_scan:
  assumes ok: "\<not> HasError (resp_Diagnostics (decoded req resp))"
    and en: "IsNull (snd (create_Config_GetAttribute_import_on_exists req))
         \<or> IsUnknown (snd (create_Config_GetAttribute_import_on_exists req))
         \<or> ValueBool (snd (create_Config_GetAttribute_import_on_exists req))"
    and halts: "scan_halts conn (snd (create_Plan_Get req)) None w"
  shows "\<exists>exit ws evs.
           calls ws = calls w @ evs
         \<and> scan_post (snd (create_Plan_Get req)) None (decoded req resp) exit evs
         \<and> (case exit of
              ScanReturn r \<Rightarrow> Create conn req resp w = Some (Returned r, ws)
            | ScanPanic \<Rightarrow> Create conn req resp w = Some (Panic, ws)
            | ScanBreak r1 \<Rightarrow>
                (\<exists>res w1. Create conn req resp w =
                     Some (create_outcome (snd (create_Plan_Get req)) r1 res, w1)
                   \<and> calls w1 = calls ws @ [EvCreate (create_payload (snd (create_Plan_Get req))) res]))"
proof -
  from Create_scan_halts [OF halts, of "decoded req resp"] obtain exit ws evs
    where s: "Create_scan conn (snd (create_Plan_Get req)) None (decoded req resp) w = Some (exit, ws)"
      and c: "calls ws = calls w @ evs"
      and p: "scan_post (snd (create_Plan_Get req)) None (decoded req resp) exit evs"
    by blast
  have "case exit of
              ScanReturn r \<Rightarrow> Create conn req resp w = Some (Returned r, ws)
            | ScanPanic \<Rightarrow> Create conn req resp w = Some (Panic, ws)
            | ScanBreak r1 \<Rightarrow>
                (\<exists>res w1. Create conn req resp w =
                     Some (create_outcome (snd (create_Plan_Get req)) r1 res, w1)
                   \<and> calls w1 = calls ws @ [EvCreate (create_payload (snd (create_Plan_Get req))) res])"
  proof (cases exit)
    case (ScanReturn r)
    then show ?thesis using en s by (simp add: Create_unfold [OF ok])
  next
    case (ScanBreak r1)
    from Create_call_spec [of conn "create_payload (snd (create_Plan_Get req))"
        "snd (create_Plan_Get req)" r1 ws]
    show ?thesis using en s ScanBreak by (simp add: Create_unfold [OF ok])
  next
    case ScanPanic
    then show ?thesis using en s by (simp add: Create_unfold [OF ok])
  qed
  with c p show ?thesis by blast
qed

lemma Create_with_scan_log:
  assumes ok: "\<not> HasError (resp_Diagnostics (decoded req resp))"
    and en: "IsNull (snd (create_Config_GetAttribute_import_on_exists req))
         \<or> IsUnknown (snd (create_Config_GetAttribute_import_on_exists req))
         \<or> ValueBool (snd (create_Config_GetAttribute_import_on_exists req))"
    and halts: "scan_halts conn (snd (create_Plan_Get req)) None w"
  shows "\<exists>exit ws evs pre rest.
           calls ws = calls w @ evs
         \<and> evs = pre @ rest
         \<and> scan_log conn (snd (create_Plan_Get req)) None (remote w) pre
         \<and> \<not> list_ex is_EvList rest
         \<and> scan_post (snd (create_Plan_Get req)) None (decoded req resp) exit evs
         \<and> (case exit of
              ScanReturn r \<Rightarrow> Create conn req resp w = Some (Returned r, ws)
            | ScanPanic \<Rightarrow> Create conn req resp w = Some (Panic, ws)
            | ScanBreak r1 \<Rightarrow>
                (\<exists>res w1. Create conn req resp w =
                     Some (create_outcome (snd (create_Plan_Get req)) r1 res, w1)
                   \<and> calls w1 = calls ws @ [EvCreate (create_payload (snd (create_Plan_Get req))) res]))"
proof -
  from Create_scan_halts [OF halts, of "decoded req resp"] obtain exit ws evs
    where s: "Create_scan conn (snd (create_Plan_Get req)) None (decoded req resp) w = Some (exit, ws)"
      and c: "calls ws = calls w @ evs"
      and p: "scan_post (snd (create_Plan_Get req)) None (decoded req resp) exit evs"
    by blast
  from Create_scan_log [OF halts, of "decoded req resp"] s obtain pre rest
    where c2: "calls ws = calls w @ pre @ rest"
      and lg: "scan_log conn (snd (create_Plan_Get req)) None (remote w) pre"
      and nr: "\<not> list_ex is_EvList rest"
    by auto
  from c c2 have e: "evs = pre @ rest" by simp
  have "case exit of
              ScanReturn r \<Rightarrow> Create conn req resp w = Some (Returned r, ws)
            | ScanPanic \<Rightarrow> Create conn req resp w = Some (Panic, ws)
            | ScanBreak r1 \<Rightarrow>
                (\<exists>res w1. Create conn req resp w =
                     Some (create_outcome (snd (create_Plan_Get req)) r1 res, w1)
                   \<and> calls w1 = calls ws @ [EvCreate (create_payload (snd (create_Plan_Get req))) res])"
  proof (cases exit)
    case (ScanReturn r)
    then show ?thesis using en s by (simp add: Create_unfold [OF ok])
  next
    case (ScanBreak r1)
    from Create_call_spec [of conn "create_payload (snd (create_Plan_Get req))"
        "snd (create_Plan_Get req)" r1 ws]
    show ?thesis using en s ScanBreak by (simp add: Create_unfold [OF ok])
  next
    case ScanPanic
    then show ?thesis using en s by (simp add: Create_unfold [OF ok])
  qed
  with c e lg nr p show ?thesis by blast
qed

lemma scan_enabled_values:
  "IsNull i \<or> IsUnknown i \<or> ValueBool i \<longleftrightarrow> i = Null \<or> i = Unknown \<or> i = Known True"
  by (cases i) auto

lemma scan_enabled_not_false:
  "IsNull i \<or> IsUnknown i \<or> ValueBool i \<longleftrightarrow> i \<noteq> Known False"
  by (cases i) auto

subsection \<open>Update and Read\<close>

lemma updateAgentStatus_spec:
  "\<exists>ures w1. updateAgentStatus data conn w = (ures, w1)
      \<and> calls w1 = calls w @ [EvUpdate (update_payload data) ures]"
proof -
  obtain ures w1 where u: "updateAgentStatus data conn w = (ures, w1)"
    by (cases "updateAgentStatus data conn w")
  then have "calls w1 = calls w @ [EvUpdate (update_payload data) ures]"
    by (auto simp: updateAgentStatus_def update_payload_def Let_def AgentStatusStateEnabled_def
        dest!: conn_UpdateAgentStatus_calls split: if_splits)
  with u show ?thesis by blast
qed


lemma Update_spec:
  assumes "\<not> HasError (resp_Diagnostics (Diagnostics_Append resp (fst (update_Plan_Get req))))"
  shows "\<exists>ures w1.
           Update conn req resp w =
             (case ures of
                Some e \<Rightarrow> update_failed (Diagnostics_Append resp (fst (update_Plan_Get req))) e
              | None \<Rightarrow> (Diagnostics_Append resp (fst (update_Plan_Get req)))
                          \<lparr>resp_State := Some (snd (update_Plan_Get req))\<rparr>, w1)
         \<and> calls w1 = calls w @ [EvUpdate (update_payload (snd (update_Plan_Get req))) ures]"
proof -
  from updateAgentStatus_spec [of "snd (update_Plan_Get req)" conn w] obtain ures w1
    where u: "updateAgentStatus (snd (update_Plan_Get req)) conn w = (ures, w1)"
      and c: "calls w1 = calls w @ [EvUpdate (update_payload (snd (update_Plan_Get req))) ures]"
    by blast
  from assms u have "Update conn req resp w =
             (case ures of
                Some e \<Rightarrow> update_failed (Diagnostics_Append resp (fst (update_Plan_Get req))) e
              | None \<Rightarrow> (Diagnostics_Append resp (fst (update_Plan_Get req)))
                          \<lparr>resp_State := Some (snd (update_Plan_Get req))\<rparr>, w1)"
    by (simp add: Update_def Let_def update_failed_def split: option.splits)
  with c show ?thesis by blast
qed

lemma Read_decode_failed:
  assumes "HasError (resp_Diagnostics (read_decoded req resp))"
  shows "snd (Read conn req resp w) = w"
    and "HasError (resp_Diagnostics (fst (Read conn req resp w)))"
    and "resp_State (fst (Read conn req resp w)) = resp_State resp"
  using assms
  by (auto simp: Read_def read_decoded_def Let_def Diagnostics_Append_def)

lemma Read_spec:
  assumes ok: "\<not> HasError (resp_Diagnostics (read_decoded req resp))"
  shows "\<exists>res w1.
           calls w1 = calls w @
             [EvDescribe \<lparr>di_AgentStatusId = Some (ValueString (AgentStatusID (snd (read_State_Get req)))),
                          di_InstanceId = Some (ValueString (InstanceID (snd (read_State_Get req))))\<rparr> res]
         \<and> Read conn req resp w =
             (case res of
                Inl e \<Rightarrow> read_failed (read_decoded req resp) e
              | Inr response \<Rightarrow>
                  (case Option.bind response do_AgentStatus of
                     None \<Rightarrow> (read_decoded req resp)\<lparr>resp_State := None\<rparr>
                   | Some agentStatus \<Rightarrow>
                       (read_decoded req resp)
                         \<lparr>resp_State := Some (refreshed (snd (read_State_Get req)) agentStatus)\<rparr>), w1)"
proof -
  let ?inp = "\<lparr>di_AgentStatusId = Some (ValueString (AgentStatusID (snd (read_State_Get req)))),
                di_InstanceId = Some (ValueString (InstanceID (snd (read_State_Get req))))\<rparr>"
  obtain res w1 where d: "conn_DescribeAgentStatus conn ?inp w = (res, w1)"
    by (cases "conn_DescribeAgentStatus conn ?inp w")
  have ok1: "\<not> HasError (resp_Diagnostics (Diagnostics_Append resp (fst (read_State_Get req))))"
    using ok HasError_Append
    by (auto simp: read_decoded_def Diagnostics_Append_def)
  from ok ok1 d have "Read conn req resp w =
             (case res of
                Inl e \<Rightarrow> read_failed (read_decoded req resp) e
              | Inr response \<Rightarrow>
                  (case Option.bind response do_AgentStatus of
                     None \<Rightarrow> (read_decoded req resp)\<lparr>resp_State := None\<rparr>
                   | Some agentStatus \<Rightarrow>
                       (read_decoded req resp)
                         \<lparr>resp_State := Some (refreshed (snd (read_State_Get req)) agentStatus)\<rparr>), w1)"
    by (simp add: Read_def Let_def read_decoded_def read_failed_def refreshed_def
        AgentStatusStateEnabled_def split: sum.splits option.splits)
  with conn_DescribeAgentStatus_calls [OF d] show ?thesis by blast
qed

text \<open>
Every describe error, the not-found signal included, is reported, and the record is kept.
\<close>

lemma Read_describe_error:
  assumes ok: "\<not> HasError (resp_Diagnostics (read_decoded req resp))"
    and ev: "calls (snd (Read conn req resp w)) = calls w @ [EvDescribe inp (Inl e)]"
  shows "fst (Read conn req resp w) = read_failed (read_decoded req resp) e"
    and "HasError (resp_Diagnostics (fst (Read conn req resp w)))"
    and "resp_State (fst (Read conn req resp w)) = resp_State resp"
proof -
  from Read_spec [OF ok, of w conn] obtain res w1 where c: "calls w1 = calls w @
             [EvDescribe \<lparr>di_AgentStatusId = Some (ValueString (AgentStatusID (snd (read_State_Get req)))),
                          di_InstanceId = Some (ValueString (InstanceID (snd (read_State_Get req))))\<rparr> res]"
    and r: "Read conn req resp w =
             (case res of
                Inl e \<Rightarrow> read_failed (read_decoded req resp) e
              | Inr response \<Rightarrow>
                  (case Option.bind response do_AgentStatus of
                     None \<Rightarrow> (read_decoded req resp)\<lparr>resp_State := None\<rparr>
                   | Some agentStatus \<Rightarrow>
                       (read_decoded req resp)
                         \<lparr>resp_State := Some (refreshed (snd (read_State_Get req)) agentStatus)\<rparr>), w1)"
    by blast
  from r have "snd (Read conn req resp w) = w1" by simp
  with ev c have "res = Inl e" by simp
  with r show f: "fst (Read conn req resp w) = read_failed (read_decoded req resp) e" by simp
  show "HasError (resp_Diagnostics (fst (Read conn req resp w)))"
    unfolding f by (simp add: read_failed_def Diagnostics_AddError_def HasError_AddError)
  show "resp_State (fst (Read conn req resp w)) = resp_State resp"
    unfolding f
    by (simp add: read_failed_def Diagnostics_AddError_def read_decoded_def Diagnostics_Append_def)
qed

section \<open>Properties of the legacy variant\<close>

lemma resourceAgentStatusRead_malformed:
  assumes "AgentStatusParseID (Id d) = Inl err"
  shows "resourceAgentStatusRead ctx d conn w =
           ([Diagnostic SeverityError (parse_error_Error err) []], d, w)"
  using assms by (simp add: resourceAgentStatusRead_def AppendFromErr_def)

lemma resourceAgentStatusRead_spec:
  assumes "AgentStatusParseID (Id d) = Inr (instanceID, agentStatusID)"
  shows "\<exists>res w1.
           calls w1 = calls w @
             [EvDescribe \<lparr>di_AgentStatusId = Some agentStatusID, di_InstanceId = Some instanceID\<rparr> res]
         \<and> resourceAgentStatusRead ctx d conn w =
             (fst (legacy_read_result d instanceID res), snd (legacy_read_result d instanceID res), w1)"
proof -
  let ?inp = "\<lparr>di_AgentStatusId = Some agentStatusID, di_InstanceId = Some instanceID\<rparr>"
  obtain res w1 where c: "conn_DescribeAgentStatus conn ?inp w = (res, w1)"
    by (cases "conn_DescribeAgentStatus conn ?inp w")
  from assms c have "resourceAgentStatusRead ctx d conn w =
             (fst (legacy_read_result d instanceID res), snd (legacy_read_result d instanceID res), w1)"
    by (auto simp: resourceAgentStatusRead_def legacy_read_result_def legacy_refreshed_def
        AppendFromErr_def NotFound_def Let_def split: sum.splits option.splits)
  with conn_DescribeAgentStatus_calls [OF c] show ?thesis by blast
qed

lemma legacy_read_result_empty:
  assumes "Option.bind out do_AgentStatus = None"
  shows "HasError (fst (legacy_read_result d i (Inr out)))"
    and "snd (legacy_read_result d i (Inr out)) = d"
  using assms by (simp_all add: legacy_read_result_def HasError_def)

lemma legacy_read_result_not_found:
  assumes "\<not> IsNewResource d" and "err_NotFound e"
  shows "legacy_read_result d i (Inl e) = ([], SetId d [])"
  using assms by (simp add: legacy_read_result_def)

lemma legacy_read_result_error:
  assumes "IsNewResource d \<or> \<not> err_NotFound e"
  shows "HasError (fst (legacy_read_result d i (Inl e)))"
    and "snd (legacy_read_result d i (Inl e)) = d"
  using assms by (auto simp: legacy_read_result_def HasError_def)

text \<open>
What the legacy read logs: nothing, or one describe call.
\<close>

lemma resourceAgentStatusRead_events:
  "\<exists>evs. calls (snd (snd (resourceAgentStatusRead ctx d conn w))) = calls w @ evs
     \<and> list_all is_EvDescribe evs"
proof (cases "AgentStatusParseID (Id d)")
  case (Inl err)
  then show ?thesis by (simp add: resourceAgentStatusRead_malformed)
next
  case (Inr p)
  obtain i a where "p = (i, a)" by (cases p)
  with Inr have "AgentStatusParseID (Id d) = Inr (i, a)" by simp
  from resourceAgentStatusRead_spec [OF this, where conn = conn and w = w and ctx = ctx]
  show ?thesis by auto
qed

lemma all_EvDescribe_no_EvUpdate: "list_all is_EvDescribe es \<Longrightarrow> \<not> list_ex is_EvUpdate es"
  by (induction es) (auto elim: is_EvDescribe.elims)

lemma no_display_order_all_EvDescribe:
  "list_all is_EvDescribe es \<Longrightarrow> \<forall>ev\<in>set es. payload_display_order ev = None"
  by (induction es) (auto elim: is_EvDescribe.elims)

text \<open>
The not-found signal on a record that is not new drops the record without a diagnostic; any other describe error is reported.
\<close>

lemma resourceAgentStatusRead_not_found:
  assumes "AgentStatusParseID (Id d) = Inr (instanceID, agentStatusID)"
    and "\<not> IsNewResource d"
    and "calls (snd (snd (resourceAgentStatusRead ctx d conn w))) = calls w @ [EvDescribe inp (Inl e)]"
    and "err_NotFound e"
  shows "fst (resourceAgentStatusRead ctx d conn w) = []"
    and "fst (snd (resourceAgentStatusRead ctx d conn w)) = SetId d []"
proof -
  from resourceAgentStatusRead_spec [OF assms(1), where conn = conn and w = w and ctx = ctx]
  obtain res w1 where c: "calls w1 = calls w @
             [EvDescribe \<lparr>di_AgentStatusId = Some agentStatusID, di_InstanceId = Some instanceID\<rparr> res]"
    and r: "resourceAgentStatusRead ctx d conn w =
             (fst (legacy_read_result d instanceID res), snd (legacy_read_result d instanceID res), w1)"
    by blast
  from r assms(3) c have "res = Inl e" by simp
  with r legacy_read_result_not_found [OF assms(2,4), of instanceID]
  show "fst (resourceAgentStatusRead ctx d conn w) = []"
    and "fst (snd (resourceAgentStatusRead ctx d conn w)) = SetId d []" by simp_all
qed

lemma resourceAgentStatusRead_other_error:
  assumes "AgentStatusParseID (Id d) = Inr (instanceID, agentStatusID)"
    and "calls (snd (snd (resourceAgentStatusRead ctx d conn w))) = calls w @ [EvDescribe inp (Inl e)]"
    and "IsNewResource d \<or> \<not> err_NotFound e"
  shows "HasError (fst (resourceAgentStatusRead ctx d conn w))"
    and "fst (snd (resourceAgentStatusRead ctx d conn w)) = d"
proof -
  from resourceAgentStatusRead_spec [OF assms(1), where conn = conn and w = w and ctx = ctx]
  obtain res w1 where c: "calls w1 = calls w @
             [EvDescribe \<lparr>di_AgentStatusId = Some agentStatusID, di_InstanceId = Some instanceID\<rparr> res]"
    and r: "resourceAgentStatusRead ctx d conn w =
             (fst (legacy_read_result d instanceID res), snd (legacy_read_result d instanceID res), w1)"
    by blast
  from r assms(2) c have "res = Inl e" by simp
  with r legacy_read_result_error [OF assms(3), of instanceID]
  show "HasError (fst (resourceAgentStatusRead ctx d conn w))"
    and "fst (snd (resourceAgentStatusRead ctx d conn w)) = d" by simp_all
qed

lemma resourceAgentStatusCreate_spec:
  "\<exists>res w1.
     calls w1 = calls w @ [EvCreate (legacy_create_payload ctx d) res]
   \<and> resourceAgentStatusCreate ctx d conn w =
       (case res of
          Inl err \<Rightarrow>
            ([Diagnostic SeverityError
                (''error creating Connect Agent Status ('' @ Get d AttrName @ ''): '' @ err_Error err) []],
             d, w1)
        | Inr None \<Rightarrow>
            ([Diagnostic SeverityError
                (''error creating Connect Agent Status ('' @ Get d AttrName @ ''): empty output'') []],
             d, w1)
        | Inr (Some output) \<Rightarrow>
            resourceAgentStatusRead ctx
              (SetId d (AgentStatusCreateID (Get d AttrInstanceID) (ToString (co_AgentStatusId output))))
              conn w1)"
proof -
  obtain res w1 where c: "conn_CreateAgentStatus conn (legacy_create_payload ctx d) w = (res, w1)"
    by (cases "conn_CreateAgentStatus conn (legacy_create_payload ctx d) w")
  have p: "(case GetOk d AttrDescription of
              (v, ok) \<Rightarrow>
                if ok
                then \<lparr>ci_InstanceId = Some (Get d AttrInstanceID), ci_Name = Some (Get d AttrName),
                       ci_State = Get d AttrState, ci_Description = None, ci_DisplayOrder = None,
                       ci_Tags = TagsIn ctx\<rparr>\<lparr>ci_Description := Some v\<rparr>
                else \<lparr>ci_InstanceId = Some (Get d AttrInstanceID), ci_Name = Some (Get d AttrName),
                       ci_State = Get d AttrState, ci_Description = None, ci_DisplayOrder = None,
                       ci_Tags = TagsIn ctx\<rparr>) = legacy_create_payload ctx d"
    by (simp add: GetOk_def legacy_create_payload_def)
  have "resourceAgentStatusCreate ctx d conn w =
       (case res of
          Inl err \<Rightarrow>
            ([Diagnostic SeverityError
                (''error creating Connect Agent Status ('' @ Get d AttrName @ ''): '' @ err_Error err) []],
             d, w1)
        | Inr None \<Rightarrow>
            ([Diagnostic SeverityError
                (''error creating Connect Agent Status ('' @ Get d AttrName @ ''): empty output'') []],
             d, w1)
        | Inr (Some output) \<Rightarrow>
            resourceAgentStatusRead ctx
              (SetId d (AgentStatusCreateID (Get d AttrInstanceID) (ToString (co_AgentStatusId output))))
              conn w1)"
    unfolding resourceAgentStatusCreate_def Let_def p
    using c by (simp add: AppendFromErr_def split: sum.splits option.splits prod.splits)
  with conn_CreateAgentStatus_calls [OF c] show ?thesis by blast
qed

lemma resourceAgentStatusCreate_events:
  "\<exists>res evs.
     calls (snd (snd (resourceAgentStatusCreate ctx d conn w)))
       = calls w @ EvCreate (legacy_create_payload ctx d) res # evs
   \<and> list_all is_EvDescribe evs
   \<and> (res = Inr None \<longrightarrow>
        HasError (fst (resourceAgentStatusCreate ctx d conn w))
        \<and> fst (snd (resourceAgentStatusCreate ctx d conn w)) = d)"
proof -
  from resourceAgentStatusCreate_spec [of w ctx d conn] obtain res w1
    where c: "calls w1 = calls w @ [EvCreate (legacy_create_payload ctx d) res]"
      and r: "resourceAgentStatusCreate ctx d conn w =
       (case res of
          Inl err \<Rightarrow>
            ([Diagnostic SeverityError
                (''error creating Connect Agent Status ('' @ Get d AttrName @ ''): '' @ err_Error err) []],
             d, w1)
        | Inr None \<Rightarrow>
            ([Diagnostic SeverityError
                (''error creating Connect Agent Status ('' @ Get d AttrName @ ''): empty output'') []],
             d, w1)
        | Inr (Some output) \<Rightarrow>
            resourceAgentStatusRead ctx
              (SetId d (AgentStatusCreateID (Get d AttrInstanceID) (ToString (co_AgentStatusId output))))
              conn w1)"
    by blast
  show ?thesis
  proof (cases res)
    case (Inl err)
    with r c show ?thesis by simp
  next
    case (Inr out)
    show ?thesis
    proof (cases out)
      case None
      with Inr r c show ?thesis by (simp add: HasError_def)
    next
      case (Some created_output)
      let ?d = "SetId d (AgentStatusCreateID (Get d AttrInstanceID)
                  (ToString (co_AgentStatusId created_output)))"
      from resourceAgentStatusRead_events [of ctx ?d conn w1] obtain evs
        where e: "calls (snd (snd (resourceAgentStatusRead ctx ?d conn w1))) = calls w1 @ evs"
          and l: "list_all is_EvDescribe evs" by blast
      from Some Inr r c e l show ?thesis by simp
    qed
  qed
qed

lemma resourceAgentStatusUpdate_malformed:
  assumes "AgentStatusParseID (Id d) = Inl err"
  shows "resourceAgentStatusUpdate ctx d conn w =
           ([Diagnostic SeverityError (parse_error_Error err) []], d, w)"
  using assms by (simp add: resourceAgentStatusUpdate_def AppendFromErr_def)

lemma resourceAgentStatusUpdate_unchanged:
  assumes "AgentStatusParseID (Id d) = Inr (instanceID, agentStatusID)"
    and "\<not> HasChanges d [AttrName, AttrDescription, AttrState]"
  shows "resourceAgentStatusUpdate ctx d conn w = resourceAgentStatusRead ctx d conn w"
  using assms by (simp add: resourceAgentStatusUpdate_def split: prod.splits)

lemma resourceAgentStatusUpdate_changed:
  assumes "AgentStatusParseID (Id d) = Inr (instanceID, agentStatusID)"
    and "HasChanges d [AttrName, AttrDescription, AttrState]"
  shows "\<exists>ures w1.
           calls w1 = calls w @ [EvUpdate (legacy_update_payload d instanceID agentStatusID) ures]
         \<and> resourceAgentStatusUpdate ctx d conn w =
             (case ures of
                Some e \<Rightarrow>
                  ([Diagnostic SeverityError
                      (''[ERROR] Error updating Agent Status ('' @ Id d @ ''): '' @ err_Error e) []], d, w1)
              | None \<Rightarrow> resourceAgentStatusRead ctx d conn w1)"
proof -
  obtain ures w1
    where c: "conn_UpdateAgentStatus conn (legacy_update_payload d instanceID agentStatusID) w = (ures, w1)"
    by (cases "conn_UpdateAgentStatus conn (legacy_update_payload d instanceID agentStatusID) w")
  from assms c have "resourceAgentStatusUpdate ctx d conn w =
             (case ures of
                Some e \<Rightarrow>
                  ([Diagnostic SeverityError
                      (''[ERROR] Error updating Agent Status ('' @ Id d @ ''): '' @ err_Error e) []], d, w1)
              | None \<Rightarrow> resourceAgentStatusRead ctx d conn w1)"
    by (simp add: resourceAgentStatusUpdate_def legacy_update_payload_def AppendErrorf_def
        split: option.splits prod.splits)
  with conn_UpdateAgentStatus_calls [OF c] show ?thesis by blast
qed

lemma HasChanges_name_description_state:
  "HasChanges d [AttrName, AttrDescription, AttrState] \<longleftrightarrow>
     rd_state d AttrName \<noteq> rd_plan d AttrName
   \<or> rd_state d AttrDescription \<noteq> rd_plan d AttrDescription
   \<or> rd_state d AttrState \<noteq> rd_plan d AttrState"
  by (simp add: HasChanges_def HasChange_def)

lemma resourceAgentStatusUpdate_events:
  "\<exists>evs. calls (snd (snd (resourceAgentStatusUpdate ctx d conn w))) = calls w @ evs
     \<and> (list_ex is_EvUpdate evs \<longleftrightarrow>
          (\<exists>p. AgentStatusParseID (Id d) = Inr p)
          \<and> HasChanges d [AttrName, AttrDescription, AttrState])
     \<and> (\<forall>ev\<in>set evs. payload_display_order ev = None)"
proof (cases "AgentStatusParseID (Id d)")
  case (Inl err)
  then show ?thesis by (simp add: resourceAgentStatusUpdate_malformed)
next
  case (Inr p)
  obtain i a where p: "p = (i, a)" by (cases p)
  with Inr have parse: "AgentStatusParseID (Id d) = Inr (i, a)" by simp
  have none: "\<forall>ev\<in>set es. payload_display_order ev = None" if "list_all is_EvDescribe es" for es
    using that by (induction es) (auto elim: is_EvDescribe.elims)
  show ?thesis
  proof (cases "HasChanges d [AttrName, AttrDescription, AttrState]")
    case False
    from resourceAgentStatusRead_events [of ctx d conn w] obtain evs
      where e: "calls (snd (snd (resourceAgentStatusRead ctx d conn w))) = calls w @ evs"
        and l: "list_all is_EvDescribe evs" by blast
    from e have "calls (snd (snd (resourceAgentStatusUpdate ctx d conn w))) = calls w @ evs"
      by (simp add: resourceAgentStatusUpdate_unchanged [OF parse False])
    with False all_EvDescribe_no_EvUpdate [OF l] none [OF l] show ?thesis by blast
  next
    case True
    from resourceAgentStatusUpdate_changed [OF parse True, where conn = conn and w = w and ctx = ctx]
    obtain ures w1
      where c: "calls w1 = calls w @ [EvUpdate (legacy_update_payload d i a) ures]"
        and u: "resourceAgentStatusUpdate ctx d conn w =
             (case ures of
                Some e \<Rightarrow>
                  ([Diagnostic SeverityError
                      (''[ERROR] Error updating Agent Status ('' @ Id d @ ''): '' @ err_Error e) []], d, w1)
              | None \<Rightarrow> resourceAgentStatusRead ctx d conn w1)" by blast
    from resourceAgentStatusRead_events [of ctx d conn w1] obtain evs
      where e: "calls (snd (snd (resourceAgentStatusRead ctx d conn w1))) = calls w1 @ evs"
        and l: "list_all is_EvDescribe evs" by blast
    let ?u = "EvUpdate (legacy_update_payload d i a) ures"
    have "\<exists>evs'. calls (snd (snd (resourceAgentStatusUpdate ctx d conn w))) = calls w @ ?u # evs'
            \<and> list_all is_EvDescribe evs'"
    proof (cases ures)
      case None
      with u c e l show ?thesis by simp
    next
      case (Some err)
      with u c show ?thesis by simp
    qed
    then obtain evs' where c': "calls (snd (snd (resourceAgentStatusUpdate ctx d conn w))) = calls w @ ?u # evs'"
      and l': "list_all is_EvDescribe evs'" by blast
    have "list_ex is_EvUpdate (?u # evs')" by simp
    moreover have "\<forall>ev\<in>set (?u # evs'). payload_display_order ev = None"
      using none [OF l'] by (simp add: legacy_update_payload_def)
    ultimately show ?thesis using c' True parse by blast
  qed
qed

section \<open>The example service\<close>

lemma example_decoded [simp]:
  "decoded (example_create_request i) empty_response = empty_response"
  by (simp add: decoded_def example_create_request_def empty_response_def Diagnostics_Append_def)

lemma example_ok: "\<not> HasError (resp_Diagnostics (decoded (example_create_request i) empty_response))"
  by (simp add: example_decoded) (simp add: empty_response_def HasError_def)

lemma example_halts: "scan_halts (example_conn False u) example_data None example_world"
proof -
  let ?w1 = "\<lparr>remote = (), calls = [EvList \<lparr>li_InstanceId = Some ''inst-1'', li_NextToken = None\<rparr>
       (Inr (Some \<lparr>lo_AgentStatusSummaryList =
                                [\<lparr>s_Arn = Some ''arn:1'', s_Id = Some ''st-1'', s_Name = Some ''Lunch''\<rparr>],
                              lo_NextToken = Some ''page2''\<rparr>))]\<rparr>"
  have "scan_halts (example_conn False u) example_data (Some ''page2'') ?w1"
    by (rule halts_last, simp add: conn_ListAgentStatuses_def example_conn_def example_data_def, simp)
  then show ?thesis
    by (rule halts_next [rotated 2])
      (simp add: conn_ListAgentStatuses_def example_conn_def example_data_def example_world_def, simp)
qed

lemma example_halts_fail: "scan_halts (example_conn True u) example_data None example_world"
  by (rule halts_error) (simp add: conn_ListAgentStatuses_def example_conn_def)

section \<open>The claims about create\<close>

text \<open>
  Claim C1. Let the plan and the configured \<open>import_on_exists\<close> decode without error, and
  let the scan halt whenever it is started, that is, whenever \<open>import_on_exists\<close> is not
  false. Then \<^verbatim>\<open>Create\<close> returns, and of the calls it made:
  \<^item> a list call is among them if and only if \<open>import_on_exists\<close> is null, unknown or
    true;
  \<^item> in that case the list calls are those of a paginated scan of the service from the
    state \<^verbatim>\<open>Create\<close> started in (\<open>scan_log\<close>: the planned instance identifier, first no
    token and then the token of the page before, the answers of the service, one more call
    exactly while a page has no entry of the planned name and has a token), and no list
    call comes after them;
  \<^item> if \<open>st\<close> is the first entry, over all pages returned, whose name equals the planned
    name (equality of the strings), then the calls are list calls followed by one update
    call for \<open>st\<close> with the planned values, no create call is among them, and the response
    holds the model with the identifier and ARN of \<open>st\<close>, in the state and in the identity;
  \<^item> if \<open>import_on_exists\<close> is false, the only call is a create call with the planned
    values.
\<close>

theorem Create_import_on_exists:
  fixes conn :: "'r ConnectClient" and req :: CreateRequest
  defines "data \<equiv> snd (create_Plan_Get req)"
    and "importOnExists \<equiv> snd (create_Config_GetAttribute_import_on_exists req)"
  assumes ok: "\<not> HasError (resp_Diagnostics (decoded req resp))"
    and halts: "importOnExists \<noteq> Known False \<Longrightarrow> scan_halts conn data None w"
  shows "\<exists>out w' evs.
           Create conn req resp w = Some (out, w') \<and> calls w' = calls w @ evs
         \<and> (list_ex is_EvList evs \<longleftrightarrow>
              importOnExists = Null \<or> importOnExists = Unknown \<or> importOnExists = Known True)
         \<and> (importOnExists \<noteq> Known False \<longrightarrow>
              (\<exists>pre rest. evs = pre @ rest \<and> scan_log conn data None (remote w) pre
                 \<and> \<not> list_ex is_EvList rest))
         \<and> (\<forall>st. find (\<lambda>status. ToString (s_Name status) = ValueString (Name data)) (listed evs) = Some st
              \<longrightarrow> (\<exists>pre ures r.
                     evs = pre @ [EvUpdate (adopt_update data st) ures] \<and> list_all is_EvList pre
                   \<and> \<not> list_ex is_EvCreate evs
                   \<and> out = Returned r
                   \<and> resp_State r = Some (adopted data st)
                   \<and> resp_Identity r = Some \<lparr>id_Arn = Known (ToString (s_Arn st)),
                                                id_AgentStatusID = Known (ToString (s_Id st))\<rparr>))
         \<and> (importOnExists = Known False \<longrightarrow> (\<exists>res. evs = [EvCreate (create_payload data) res]))"
proof (cases "importOnExists = Known False")
  case True
  then have ne: "\<not> (IsNull importOnExists \<or> IsUnknown importOnExists \<or> ValueBool importOnExists)"
    by simp
  from Create_without_scan [OF ok, of conn w] ne obtain res w1
    where c: "Create conn req resp w = Some (create_outcome data (decoded req resp) res, w1)"
      and e: "calls w1 = calls w @ [EvCreate (create_payload data) res]"
    unfolding data_def importOnExists_def by blast
  show ?thesis
    apply (rule exI [of _ "create_outcome data (decoded req resp) res"])
    apply (rule exI [of _ w1])
    apply (rule exI [of _ "[EvCreate (create_payload data) res]"])
    using c e True apply simp
    done
next
  case nf: False
  then have en: "IsNull importOnExists \<or> IsUnknown importOnExists \<or> ValueBool importOnExists"
    by (simp add: scan_enabled_not_false)
  from nf have val: "importOnExists = Null \<or> importOnExists = Unknown \<or> importOnExists = Known True"
    using en by (simp add: scan_enabled_values)
  from Create_with_scan_log [OF ok en [unfolded importOnExists_def] halts [OF nf, unfolded data_def]]
  obtain exit ws evs pre0 rest0 where cs: "calls ws = calls w @ evs"
    and dec: "evs = pre0 @ rest0"
    and lg: "scan_log conn data None (remote w) pre0"
    and nr: "\<not> list_ex is_EvList rest0"
    and post: "scan_post data None (decoded req resp) exit evs"
    and ex: "case exit of
              ScanReturn r \<Rightarrow> Create conn req resp w = Some (Returned r, ws)
            | ScanPanic \<Rightarrow> Create conn req resp w = Some (Panic, ws)
            | ScanBreak r1 \<Rightarrow>
                (\<exists>res w1. Create conn req resp w = Some (create_outcome data r1 res, w1)
                   \<and> calls w1 = calls ws @ [EvCreate (create_payload data) res])"
    unfolding data_def importOnExists_def by blast
  from post obtain res0 es where evs: "evs = EvList \<lparr>li_InstanceId = Some (ValueString (InstanceID data)), li_NextToken = None\<rparr> res0 # es"
    unfolding scan_post_def by blast
  from evs have le: "list_ex is_EvList evs" by simp
  have chain: "\<exists>pre rest. evs = pre @ rest \<and> scan_log conn data None (remote w) pre
                 \<and> \<not> list_ex is_EvList rest"
    using dec lg nr by blast
  have chain': "\<exists>pre rest. evs @ [EvCreate ci res] = pre @ rest \<and> scan_log conn data None (remote w) pre
                 \<and> \<not> list_ex is_EvList rest" for ci res
  proof -
    have "evs @ [EvCreate ci res] = pre0 @ (rest0 @ [EvCreate ci res])" using dec by simp
    moreover have "\<not> list_ex is_EvList (rest0 @ [EvCreate ci res])" using nr by simp
    ultimately show ?thesis using lg by blast
  qed
  let ?f = "find (\<lambda>status. ToString (s_Name status) = ValueString (Name data))"
  from post have pf: "case ?f (listed evs) of
          Some st \<Rightarrow>
            (\<exists>pre ures. evs = pre @ [EvUpdate (adopt_update data st) ures] \<and> list_all is_EvList pre
               \<and> exit = ScanReturn (adopt_response data st (decoded req resp) ures))
        | None \<Rightarrow>
            list_all is_EvList evs
            \<and> (case last evs of
                 EvList _ (Inl e) \<Rightarrow> exit = ScanBreak (list_failed (decoded req resp) e)
               | EvList _ (Inr None) \<Rightarrow> exit = ScanPanic
               | _ \<Rightarrow> exit = ScanBreak (decoded req resp))"
    unfolding scan_post_def by blast
  show ?thesis
  proof (cases "?f (listed evs)")
    case (Some st)
    with pf obtain pre ures where e1: "evs = pre @ [EvUpdate (adopt_update data st) ures]"
      and e2: "list_all is_EvList pre"
      and e3: "exit = ScanReturn (adopt_response data st (decoded req resp) ures)" by auto
    from ex e3 have c: "Create conn req resp w = Some (Returned (adopt_response data st (decoded req resp) ures), ws)"
      by simp
    have nc: "\<not> list_ex is_EvCreate evs"
      using all_EvList_no_EvCreate [OF e2] e1 by simp
    have ad: "\<exists>pre. (\<exists>u. evs = pre @ [EvUpdate (adopt_update data st) u]) \<and> list_all is_EvList pre"
      using e1 e2 by blast
    show ?thesis
      apply (rule exI [of _ "Returned (adopt_response data st (decoded req resp) ures)"])
      apply (rule exI [of _ ws])
      apply (rule exI [of _ evs])
      using c cs nf val Some le chain ad nc
      apply (simp add: adopt_response_def)
      done
  next
    case None
    show ?thesis
    proof (cases exit)
      case (ScanReturn r)
      with ex have c: "Create conn req resp w = Some (Returned r, ws)" by simp
      show ?thesis
        apply (rule exI [of _ "Returned r"])
        apply (rule exI [of _ ws])
        apply (rule exI [of _ evs])
        using c cs nf val None le chain
        apply simp
        done
    next
      case ScanPanic
      with ex have c: "Create conn req resp w = Some (Panic, ws)" by simp
      show ?thesis
        apply (rule exI [of _ "Panic"])
        apply (rule exI [of _ ws])
        apply (rule exI [of _ evs])
        using c cs nf val None le chain
        apply simp
        done
    next
      case (ScanBreak r1)
      with ex obtain res w1 where c: "Create conn req resp w = Some (create_outcome data r1 res, w1)"
        and c1: "calls w1 = calls ws @ [EvCreate (create_payload data) res]" by auto
      have l: "listed (evs @ [EvCreate (create_payload data) res]) = listed evs"
        by (simp add: listed_append)
      have le': "list_ex is_EvList (evs @ [EvCreate (create_payload data) res])" using le by simp
      show ?thesis
        apply (rule exI [of _ "create_outcome data r1 res"])
        apply (rule exI [of _ w1])
        apply (rule exI [of _ "evs @ [EvCreate (create_payload data) res]"])
        using c c1 cs nf val None le' chain' [of "create_payload data" res]
        apply (simp only: l)
        apply simp
        done
    qed
  qed
qed

theorem Create_import_on_exists_witness:
  "\<not> HasError (resp_Diagnostics (decoded (example_create_request Null) empty_response))
   \<and> scan_halts (example_conn False False) example_data None example_world
   \<and> scan_log (example_conn False False) example_data None ()
       [EvList \<lparr>li_InstanceId = Some ''inst-1'', li_NextToken = None\<rparr>
          (Inr (Some \<lparr>lo_AgentStatusSummaryList =
                        [\<lparr>s_Arn = Some ''arn:1'', s_Id = Some ''st-1'', s_Name = Some ''Lunch''\<rparr>],
                      lo_NextToken = Some ''page2''\<rparr>)),
        EvList \<lparr>li_InstanceId = Some ''inst-1'', li_NextToken = Some ''page2''\<rparr>
          (Inr (Some \<lparr>lo_AgentStatusSummaryList =
                        [\<lparr>s_Arn = Some ''arn:2'', s_Id = Some ''st-2'', s_Name = Some ''Break''\<rparr>,
                         \<lparr>s_Arn = Some ''arn:3'', s_Id = Some ''st-3'', s_Name = Some ''Break''\<rparr>],
                      lo_NextToken = None\<rparr>))]
   \<and> Create (example_conn False False) (example_create_request Null) empty_response example_world =
       Some (Returned
              \<lparr>resp_Diagnostics = [],
               resp_State = Some (example_data\<lparr>AgentStatusID := Known ''st-2'', Arn := Known ''arn:2''\<rparr>),
               resp_Identity = Some \<lparr>id_Arn = Known ''arn:2'', id_AgentStatusID = Known ''st-2''\<rparr>\<rparr>,
             \<lparr>remote = (),
              calls =
                [EvList \<lparr>li_InstanceId = Some ''inst-1'', li_NextToken = None\<rparr>
                   (Inr (Some \<lparr>lo_AgentStatusSummaryList =
                                 [\<lparr>s_Arn = Some ''arn:1'', s_Id = Some ''st-1'', s_Name = Some ''Lunch''\<rparr>],
                               lo_NextToken = Some ''page2''\<rparr>)),
                 EvList \<lparr>li_InstanceId = Some ''inst-1'', li_NextToken = Some ''page2''\<rparr>
                   (Inr (Some \<lparr>lo_AgentStatusSummaryList =
                                 [\<lparr>s_Arn = Some ''arn:2'', s_Id = Some ''st-2'', s_Name = Some ''Break''\<rparr>,
                                  \<lparr>s_Arn = Some ''arn:3'', s_Id = Some ''st-3'', s_Name = Some ''Break''\<rparr>],
                               lo_NextToken = None\<rparr>)),
                 EvUpdate \<lparr>ui_AgentStatusId = Some ''st-2'', ui_InstanceId = Some ''inst-1'',
                            ui_Name = Some ''Break'', ui_State = ''ENABLED'',
                            ui_Description = Some ''Away'', ui_DisplayOrder = Some 3\<rparr> None]\<rparr>)
   \<and> Create (example_conn False False) (example_create_request (Known False)) empty_response example_world =
       Some (Returned
              \<lparr>resp_Diagnostics = [],
               resp_State = Some (example_data\<lparr>AgentStatusID := Known ''st-new'', Arn := Known ''arn:new''\<rparr>),
               resp_Identity = Some \<lparr>id_Arn = Known ''arn:new'', id_AgentStatusID = Known ''st-new''\<rparr>\<rparr>,
             \<lparr>remote = (),
              calls =
                [EvCreate \<lparr>ci_InstanceId = Some ''inst-1'', ci_Name = Some ''Break'',
                            ci_State = ''ENABLED'', ci_Description = Some ''Away'',
                            ci_DisplayOrder = Some 3, ci_Tags = []\<rparr>
                   (Inr (Some \<lparr>co_AgentStatusId = Some ''st-new'', co_AgentStatusARN = Some ''arn:new''\<rparr>))]\<rparr>)"
proof -
  have e0: "scan_log (example_conn False False) example_data None ()
       [EvList \<lparr>li_InstanceId = Some ''inst-1'', li_NextToken = None\<rparr>
          (Inr (Some \<lparr>lo_AgentStatusSummaryList =
                        [\<lparr>s_Arn = Some ''arn:1'', s_Id = Some ''st-1'', s_Name = Some ''Lunch''\<rparr>],
                      lo_NextToken = Some ''page2''\<rparr>)),
        EvList \<lparr>li_InstanceId = Some ''inst-1'', li_NextToken = Some ''page2''\<rparr>
          (Inr (Some \<lparr>lo_AgentStatusSummaryList =
                        [\<lparr>s_Arn = Some ''arn:2'', s_Id = Some ''st-2'', s_Name = Some ''Break''\<rparr>,
                         \<lparr>s_Arn = Some ''arn:3'', s_Id = Some ''st-3'', s_Name = Some ''Break''\<rparr>],
                      lo_NextToken = None\<rparr>))]"
    by code_simp
  have e1: "Create (example_conn False False) (example_create_request Null) empty_response example_world =
       Some (Returned
              \<lparr>resp_Diagnostics = [],
               resp_State = Some (example_data\<lparr>AgentStatusID := Known ''st-2'', Arn := Known ''arn:2''\<rparr>),
               resp_Identity = Some \<lparr>id_Arn = Known ''arn:2'', id_AgentStatusID = Known ''st-2''\<rparr>\<rparr>,
             \<lparr>remote = (),
              calls =
                [EvList \<lparr>li_InstanceId = Some ''inst-1'', li_NextToken = None\<rparr>
                   (Inr (Some \<lparr>lo_AgentStatusSummaryList =
                                 [\<lparr>s_Arn = Some ''arn:1'', s_Id = Some ''st-1'', s_Name = Some ''Lunch''\<rparr>],
                               lo_NextToken = Some ''page2''\<rparr>)),
                 EvList \<lparr>li_InstanceId = Some ''inst-1'', li_NextToken = Some ''page2''\<rparr>
                   (Inr (Some \<lparr>lo_AgentStatusSummaryList =
                                 [\<lparr>s_Arn = Some ''arn:2'', s_Id = Some ''st-2'', s_Name = Some ''Break''\<rparr>,
                                  \<lparr>s_Arn = Some ''arn:3'', s_Id = Some ''st-3'', s_Name = Some ''Break''\<rparr>],
                               lo_NextToken = None\<rparr>)),
                 EvUpdate \<lparr>ui_AgentStatusId = Some ''st-2'', ui_InstanceId = Some ''inst-1'',
                            ui_Name = Some ''Break'', ui_State = ''ENABLED'',
                            ui_Description = Some ''Away'', ui_DisplayOrder = Some 3\<rparr> None]\<rparr>)"
    by code_simp
  have e2: "Create (example_conn False False) (example_create_request (Known False)) empty_response example_world =
       Some (Returned
              \<lparr>resp_Diagnostics = [],
               resp_State = Some (example_data\<lparr>AgentStatusID := Known ''st-new'', Arn := Known ''arn:new''\<rparr>),
               resp_Identity = Some \<lparr>id_Arn = Known ''arn:new'', id_AgentStatusID = Known ''st-new''\<rparr>\<rparr>,
             \<lparr>remote = (),
              calls =
                [EvCreate \<lparr>ci_InstanceId = Some ''inst-1'', ci_Name = Some ''Break'',
                            ci_State = ''ENABLED'', ci_Description = Some ''Away'',
                            ci_DisplayOrder = Some 3, ci_Tags = []\<rparr>
                   (Inr (Some \<lparr>co_AgentStatusId = Some ''st-new'', co_AgentStatusARN = Some ''arn:new''\<rparr>))]\<rparr>)"
    by code_simp
  have h: "scan_halts (example_conn False False) (snd (create_Plan_Get (example_create_request i)))
      None example_world" for i
    using example_halts [of False] by (simp add: example_create_request_def)
  note t1 = Create_import_on_exists [OF example_ok [of Null] h]
  note t2 = Create_import_on_exists [OF example_ok [of "Known False"] h]
  from t1 have "Create (example_conn False False) (example_create_request Null)
      empty_response example_world \<noteq> None"
    by (elim exE conjE) simp
  moreover from t2 have "Create (example_conn False False) (example_create_request (Known False))
      empty_response example_world \<noteq> None"
    by (elim exE conjE) simp
  ultimately show ?thesis
    using e0 e1 e2 example_ok [of Null] example_halts [of False] by blast
qed

text \<open>
  Claim C7. Let the plan decode without error, let \<open>import_on_exists\<close> be null, unknown
  or true, and let the scan halt. Then \<^verbatim>\<open>Create\<close> returns; and if \<open>st\<close> is the first listed
  entry of the planned name and the last call, the update issued for it, failed with
  \<open>e\<close>, then the response carries the error diagnostic of the failed update, and its state
  and identity still hold the identifier and ARN of \<open>st\<close>.
\<close>

theorem Create_adopt_update_failure:
  fixes conn :: "'r ConnectClient" and req :: CreateRequest
  defines "data \<equiv> snd (create_Plan_Get req)"
    and "importOnExists \<equiv> snd (create_Config_GetAttribute_import_on_exists req)"
  assumes ok: "\<not> HasError (resp_Diagnostics (decoded req resp))"
    and en: "IsNull importOnExists \<or> IsUnknown importOnExists \<or> ValueBool importOnExists"
    and halts: "scan_halts conn data None w"
  shows "\<exists>out w' evs.
           Create conn req resp w = Some (out, w') \<and> calls w' = calls w @ evs
         \<and> (\<forall>st u e.
              find (\<lambda>status. ToString (s_Name status) = ValueString (Name data)) (listed evs) = Some st
              \<and> last evs = EvUpdate u (Some e)
              \<longrightarrow> (\<exists>r. out = Returned r
                    \<and> Diagnostic SeverityError ''Error updating Connect Agent Status''
                         (''Could not update Connect Agent Status, unexpected error: '' @ err_Error e)
                       \<in> set (resp_Diagnostics r)
                    \<and> HasError (resp_Diagnostics r)
                    \<and> resp_State r =
                        Some (data\<lparr>AgentStatusID := Known (ToString (s_Id st)),
                                   Arn := Known (ToString (s_Arn st))\<rparr>)
                    \<and> resp_Identity r =
                        Some \<lparr>id_Arn = Known (ToString (s_Arn st)),
                              id_AgentStatusID = Known (ToString (s_Id st))\<rparr>))"
proof -
  from Create_with_scan [OF ok en [unfolded importOnExists_def] halts [unfolded data_def]]
  obtain exit ws evs where cs: "calls ws = calls w @ evs"
    and post: "scan_post data None (decoded req resp) exit evs"
    and ex: "case exit of
              ScanReturn r \<Rightarrow> Create conn req resp w = Some (Returned r, ws)
            | ScanPanic \<Rightarrow> Create conn req resp w = Some (Panic, ws)
            | ScanBreak r1 \<Rightarrow>
                (\<exists>res w1. Create conn req resp w = Some (create_outcome data r1 res, w1)
                   \<and> calls w1 = calls ws @ [EvCreate (create_payload data) res])"
    unfolding data_def by blast
  let ?f = "find (\<lambda>status. ToString (s_Name status) = ValueString (Name data))"
  show ?thesis
  proof (cases exit)
    case (ScanReturn r)
    with ex have c: "Create conn req resp w = Some (Returned r, ws)" by simp
    have "\<exists>r'. Returned r = Returned r'
                    \<and> Diagnostic SeverityError ''Error updating Connect Agent Status''
                         (''Could not update Connect Agent Status, unexpected error: '' @ err_Error e)
                       \<in> set (resp_Diagnostics r')
                    \<and> HasError (resp_Diagnostics r')
                    \<and> resp_State r' =
                        Some (data\<lparr>AgentStatusID := Known (ToString (s_Id st)),
                                   Arn := Known (ToString (s_Arn st))\<rparr>)
                    \<and> resp_Identity r' =
                        Some \<lparr>id_Arn = Known (ToString (s_Arn st)),
                              id_AgentStatusID = Known (ToString (s_Id st))\<rparr>"
      if f: "?f (listed evs) = Some st" and l: "last evs = EvUpdate u (Some e)" for st u e
    proof -
      from scan_post_find [OF post] f obtain pre ures
        where e1: "evs = pre @ [EvUpdate (adopt_update data st) ures]"
          and e3: "exit = ScanReturn (adopt_response data st (decoded req resp) ures)" by auto
      from e1 l have u: "ures = Some e" by simp
      from e3 ScanReturn u have r: "r = adopt_response data st (decoded req resp) (Some e)" by simp
      show ?thesis
        unfolding r
        by (simp add: adopt_response_def adopted_def AddError_member HasError_AddError)
    qed
    with c cs show ?thesis by blast
  next
    case ScanPanic
    with ex have c: "Create conn req resp w = Some (Panic, ws)" by simp
    from scan_post_not_return [OF post] ScanPanic have "?f (listed evs) = None" by simp
    with c cs show ?thesis by (intro exI [of _ Panic] exI [of _ ws] exI [of _ evs]) simp
  next
    case (ScanBreak r1)
    with ex obtain res w1 where c: "Create conn req resp w = Some (create_outcome data r1 res, w1)"
      and c1: "calls w1 = calls ws @ [EvCreate (create_payload data) res]" by auto
    have "last (evs @ [EvCreate (create_payload data) res]) \<noteq> EvUpdate u (Some e)" for u e
      by simp
    with c c1 cs show ?thesis
      by (intro exI [of _ "create_outcome data r1 res"] exI [of _ w1]
          exI [of _ "evs @ [EvCreate (create_payload data) res]"]) simp
  qed
qed

theorem Create_adopt_update_failure_witness:
  "\<not> HasError (resp_Diagnostics (decoded (example_create_request Unknown) empty_response))
   \<and> scan_halts (example_conn False True) example_data None example_world
   \<and> Create (example_conn False True) (example_create_request Unknown) empty_response example_world =
       Some (Returned
              \<lparr>resp_Diagnostics =
                 [Diagnostic SeverityError ''Error updating Connect Agent Status''
                    ''Could not update Connect Agent Status, unexpected error: update refused''],
               resp_State = Some (example_data\<lparr>AgentStatusID := Known ''st-2'', Arn := Known ''arn:2''\<rparr>),
               resp_Identity = Some \<lparr>id_Arn = Known ''arn:2'', id_AgentStatusID = Known ''st-2''\<rparr>\<rparr>,
             \<lparr>remote = (),
              calls =
                [EvList \<lparr>li_InstanceId = Some ''inst-1'', li_NextToken = None\<rparr>
                   (Inr (Some \<lparr>lo_AgentStatusSummaryList =
                                 [\<lparr>s_Arn = Some ''arn:1'', s_Id = Some ''st-1'', s_Name = Some ''Lunch''\<rparr>],
                               lo_NextToken = Some ''page2''\<rparr>)),
                 EvList \<lparr>li_InstanceId = Some ''inst-1'', li_NextToken = Some ''page2''\<rparr>
                   (Inr (Some \<lparr>lo_AgentStatusSummaryList =
                                 [\<lparr>s_Arn = Some ''arn:2'', s_Id = Some ''st-2'', s_Name = Some ''Break''\<rparr>,
                                  \<lparr>s_Arn = Some ''arn:3'', s_Id = Some ''st-3'', s_Name = Some ''Break''\<rparr>],
                               lo_NextToken = None\<rparr>)),
                 EvUpdate \<lparr>ui_AgentStatusId = Some ''st-2'', ui_InstanceId = Some ''inst-1'',
                            ui_Name = Some ''Break'', ui_State = ''ENABLED'',
                            ui_Description = Some ''Away'', ui_DisplayOrder = Some 3\<rparr>
                   (Some (ApiError False ''update refused''))]\<rparr>)"
proof -
  have e: "Create (example_conn False True) (example_create_request Unknown) empty_response example_world =
       Some (Returned
              \<lparr>resp_Diagnostics =
                 [Diagnostic SeverityError ''Error updating Connect Agent Status''
                    ''Could not update Connect Agent Status, unexpected error: update refused''],
               resp_State = Some (example_data\<lparr>AgentStatusID := Known ''st-2'', Arn := Known ''arn:2''\<rparr>),
               resp_Identity = Some \<lparr>id_Arn = Known ''arn:2'', id_AgentStatusID = Known ''st-2''\<rparr>\<rparr>,
             \<lparr>remote = (),
              calls =
                [EvList \<lparr>li_InstanceId = Some ''inst-1'', li_NextToken = None\<rparr>
                   (Inr (Some \<lparr>lo_AgentStatusSummaryList =
                                 [\<lparr>s_Arn = Some ''arn:1'', s_Id = Some ''st-1'', s_Name = Some ''Lunch''\<rparr>],
                               lo_NextToken = Some ''page2''\<rparr>)),
                 EvList \<lparr>li_InstanceId = Some ''inst-1'', li_NextToken = Some ''page2''\<rparr>
                   (Inr (Some \<lparr>lo_AgentStatusSummaryList =
                                 [\<lparr>s_Arn = Some ''arn:2'', s_Id = Some ''st-2'', s_Name = Some ''Break''\<rparr>,
                                  \<lparr>s_Arn = Some ''arn:3'', s_Id = Some ''st-3'', s_Name = Some ''Break''\<rparr>],
                               lo_NextToken = None\<rparr>)),
                 EvUpdate \<lparr>ui_AgentStatusId = Some ''st-2'', ui_InstanceId = Some ''inst-1'',
                            ui_Name = Some ''Break'', ui_State = ''ENABLED'',
                            ui_Description = Some ''Away'', ui_DisplayOrder = Some 3\<rparr>
                   (Some (ApiError False ''update refused''))]\<rparr>)"
    by code_simp
  have en: "IsNull (snd (create_Config_GetAttribute_import_on_exists (example_create_request Unknown)))
      \<or> IsUnknown (snd (create_Config_GetAttribute_import_on_exists (example_create_request Unknown)))
      \<or> ValueBool (snd (create_Config_GetAttribute_import_on_exists (example_create_request Unknown)))"
    by (simp add: example_create_request_def)
  have h: "scan_halts (example_conn False True) (snd (create_Plan_Get (example_create_request Unknown)))
      None example_world"
    using example_halts [of True] by (simp add: example_create_request_def)
  from Create_adopt_update_failure [OF example_ok [of Unknown] en h]
  have "Create (example_conn False True) (example_create_request Unknown)
      empty_response example_world \<noteq> None"
    by (elim exE conjE) simp
  then show ?thesis
    using e example_ok [of Unknown] example_halts [of True] by simp
qed

text \<open>
  Claim C10. Under the same hypotheses, if a list call of the scan failed with \<open>e\<close>, then
  it was the last list call, the next and last call is a create call with the planned
  values, the outcome is that of the create call on a response that records the list
  error, and whenever \<^verbatim>\<open>Create\<close> returns a response, the error diagnostic of the failed
  list call is in it.
\<close>

theorem Create_list_failure_still_creates:
  fixes conn :: "'r ConnectClient" and req :: CreateRequest
  defines "data \<equiv> snd (create_Plan_Get req)"
    and "importOnExists \<equiv> snd (create_Config_GetAttribute_import_on_exists req)"
  assumes ok: "\<not> HasError (resp_Diagnostics (decoded req resp))"
    and en: "IsNull importOnExists \<or> IsUnknown importOnExists \<or> ValueBool importOnExists"
    and halts: "scan_halts conn data None w"
  shows "\<exists>out w' evs.
           Create conn req resp w = Some (out, w') \<and> calls w' = calls w @ evs
         \<and> (\<forall>inp e. EvList inp (Inl e) \<in> set evs
              \<longrightarrow> (\<exists>pre res.
                     evs = pre @ [EvList inp (Inl e), EvCreate (create_payload data) res]
                   \<and> list_all is_EvList pre
                   \<and> out = create_outcome data (list_failed (decoded req resp) e) res
                   \<and> (\<forall>r. out = Returned r
                        \<longrightarrow> Diagnostic SeverityError ''Error listing Connect Agent Statuses''
                              (''Could not list Connect Agent Statuses, unexpected error: '' @ err_Error e)
                            \<in> set (resp_Diagnostics r))))"
proof -
  from Create_with_scan [OF ok en [unfolded importOnExists_def] halts [unfolded data_def]]
  obtain exit ws evs where cs: "calls ws = calls w @ evs"
    and post: "scan_post data None (decoded req resp) exit evs"
    and ex: "case exit of
              ScanReturn r \<Rightarrow> Create conn req resp w = Some (Returned r, ws)
            | ScanPanic \<Rightarrow> Create conn req resp w = Some (Panic, ws)
            | ScanBreak r1 \<Rightarrow>
                (\<exists>res w1. Create conn req resp w = Some (create_outcome data r1 res, w1)
                   \<and> calls w1 = calls ws @ [EvCreate (create_payload data) res])"
    unfolding data_def by blast
  let ?d = "\<lambda>e. Diagnostic SeverityError ''Error listing Connect Agent Statuses''
                (''Could not list Connect Agent Statuses, unexpected error: '' @ err_Error e)"
  have diag: "?d e \<in> set (resp_Diagnostics r)"
    if "create_outcome data (list_failed (decoded req resp) e) res = Returned r" for e res r
  proof -
    have m: "?d e \<in> set (resp_Diagnostics (list_failed (decoded req resp) e))"
      by (simp add: list_failed_def Diagnostics_AddError_def AddError_member)
    from that show ?thesis
      using m
      by (auto simp: create_outcome_def create_failed_def Diagnostics_AddError_def AddError_def
          intro: Append_keeps split: sum.splits option.splits)
  qed
  show ?thesis
  proof (cases exit)
    case (ScanReturn r)
    with ex have c: "Create conn req resp w = Some (Returned r, ws)" by simp
    from scan_post_failed(1) [OF post] ScanReturn have "EvList inp (Inl e) \<notin> set evs" for inp e
      by auto
    with c cs show ?thesis by (intro exI [of _ "Returned r"] exI [of _ ws] exI [of _ evs]) simp
  next
    case ScanPanic
    with ex have c: "Create conn req resp w = Some (Panic, ws)" by simp
    from scan_post_failed(1) [OF post] ScanPanic have "EvList inp (Inl e) \<notin> set evs" for inp e
      by auto
    with c cs show ?thesis by (intro exI [of _ Panic] exI [of _ ws] exI [of _ evs]) simp
  next
    case (ScanBreak r1)
    with ex obtain res w1 where c: "Create conn req resp w = Some (create_outcome data r1 res, w1)"
      and c1: "calls w1 = calls ws @ [EvCreate (create_payload data) res]" by auto
    from scan_post_not_return(2) [OF post] ScanBreak have la: "list_all is_EvList evs" by simp
    have "\<exists>pre res'.
             evs @ [EvCreate (create_payload data) res]
               = pre @ [EvList inp (Inl e), EvCreate (create_payload data) res']
           \<and> list_all is_EvList pre
           \<and> create_outcome data r1 res = create_outcome data (list_failed (decoded req resp) e) res'
           \<and> (\<forall>r. create_outcome data r1 res = Returned r \<longrightarrow> ?d e \<in> set (resp_Diagnostics r))"
      if "EvList inp (Inl e) \<in> set (evs @ [EvCreate (create_payload data) res])" for inp e
    proof -
      from that have mem: "EvList inp (Inl e) \<in> set evs" by simp
      from scan_post_failed [OF post mem] ScanBreak obtain pre
        where r1: "r1 = list_failed (decoded req resp) e" and e1: "evs = pre @ [EvList inp (Inl e)]"
        by auto
      from la e1 have "list_all is_EvList pre" by simp
      with r1 e1 diag show ?thesis by auto
    qed
    with c c1 cs show ?thesis
      by (intro exI [of _ "create_outcome data r1 res"] exI [of _ w1]
          exI [of _ "evs @ [EvCreate (create_payload data) res]"]) simp
  qed
qed

theorem Create_list_failure_still_creates_witness:
  "\<not> HasError (resp_Diagnostics (decoded (example_create_request (Known True)) empty_response))
   \<and> scan_halts (example_conn True False) example_data None example_world
   \<and> Create (example_conn True False) (example_create_request (Known True)) empty_response example_world =
       Some (Returned
              \<lparr>resp_Diagnostics =
                 [Diagnostic SeverityError ''Error listing Connect Agent Statuses''
                    ''Could not list Connect Agent Statuses, unexpected error: list refused''],
               resp_State = Some (example_data\<lparr>AgentStatusID := Known ''st-new'', Arn := Known ''arn:new''\<rparr>),
               resp_Identity = Some \<lparr>id_Arn = Known ''arn:new'', id_AgentStatusID = Known ''st-new''\<rparr>\<rparr>,
             \<lparr>remote = (),
              calls =
                [EvList \<lparr>li_InstanceId = Some ''inst-1'', li_NextToken = None\<rparr>
                   (Inl (ApiError False ''list refused'')),
                 EvCreate \<lparr>ci_InstanceId = Some ''inst-1'', ci_Name = Some ''Break'',
                            ci_State = ''ENABLED'', ci_Description = Some ''Away'',
                            ci_DisplayOrder = Some 3, ci_Tags = []\<rparr>
                   (Inr (Some \<lparr>co_AgentStatusId = Some ''st-new'', co_AgentStatusARN = Some ''arn:new''\<rparr>))]\<rparr>)"
proof -
  have e: "Create (example_conn True False) (example_create_request (Known True)) empty_response example_world =
       Some (Returned
              \<lparr>resp_Diagnostics =
                 [Diagnostic SeverityError ''Error listing Connect Agent Statuses''
                    ''Could not list Connect Agent Statuses, unexpected error: list refused''],
               resp_State = Some (example_data\<lparr>AgentStatusID := Known ''st-new'', Arn := Known ''arn:new''\<rparr>),
               resp_Identity = Some \<lparr>id_Arn = Known ''arn:new'', id_AgentStatusID = Known ''st-new''\<rparr>\<rparr>,
             \<lparr>remote = (),
              calls =
                [EvList \<lparr>li_InstanceId = Some ''inst-1'', li_NextToken = None\<rparr>
                   (Inl (ApiError False ''list refused'')),
                 EvCreate \<lparr>ci_InstanceId = Some ''inst-1'', ci_Name = Some ''Break'',
                            ci_State = ''ENABLED'', ci_Description = Some ''Away'',
                            ci_DisplayOrder = Some 3, ci_Tags = []\<rparr>
                   (Inr (Some \<lparr>co_AgentStatusId = Some ''st-new'', co_AgentStatusARN = Some ''arn:new''\<rparr>))]\<rparr>)"
    by code_simp
  have en: "IsNull (snd (create_Config_GetAttribute_import_on_exists (example_create_request (Known True))))
      \<or> IsUnknown (snd (create_Config_GetAttribute_import_on_exists (example_create_request (Known True))))
      \<or> ValueBool (snd (create_Config_GetAttribute_import_on_exists (example_create_request (Known True))))"
    by (simp add: example_create_request_def)
  have h: "scan_halts (example_conn True False) (snd (create_Plan_Get (example_create_request (Known True))))
      None example_world"
    using example_halts_fail [of False] by (simp add: example_create_request_def)
  from Create_list_failure_still_creates [OF example_ok [of "Known True"] en h]
  have "Create (example_conn True False) (example_create_request (Known True))
      empty_response example_world \<noteq> None"
    by (elim exE conjE) simp
  then show ?thesis
    using e example_ok [of "Known True"] example_halts_fail [of False] by simp
qed

section \<open>The claims about update and delete\<close>

text \<open>
  Claim C8. The calls of the legacy update contain an update call if and only if the
  identifier parses and the prior state and the plan differ in the name, the description
  or the state. The framework's update, when the plan decodes without error, makes exactly
  one call, the update call with the planned values.
\<close>

theorem Update_call_conditions:
  "(\<exists>evs. calls (snd (snd (resourceAgentStatusUpdate ctx d conn w))) = calls w @ evs
      \<and> (list_ex is_EvUpdate evs \<longleftrightarrow>
           (\<exists>p. AgentStatusParseID (Id d) = Inr p)
           \<and> (rd_state d AttrName \<noteq> rd_plan d AttrName
              \<or> rd_state d AttrDescription \<noteq> rd_plan d AttrDescription
              \<or> rd_state d AttrState \<noteq> rd_plan d AttrState)))
   \<and> (\<not> HasError (resp_Diagnostics (Diagnostics_Append resp (fst (update_Plan_Get req))))
      \<longrightarrow> (\<exists>ures. calls (snd (Update conn req resp w)) =
                    calls w @ [EvUpdate (update_payload (snd (update_Plan_Get req))) ures]))"
proof -
  from resourceAgentStatusUpdate_events [of ctx d conn w]
  have a: "\<exists>evs. calls (snd (snd (resourceAgentStatusUpdate ctx d conn w))) = calls w @ evs
      \<and> (list_ex is_EvUpdate evs \<longleftrightarrow>
           (\<exists>p. AgentStatusParseID (Id d) = Inr p)
           \<and> (rd_state d AttrName \<noteq> rd_plan d AttrName
              \<or> rd_state d AttrDescription \<noteq> rd_plan d AttrDescription
              \<or> rd_state d AttrState \<noteq> rd_plan d AttrState))"
    unfolding HasChanges_name_description_state by blast
  have b: "\<exists>ures. calls (snd (Update conn req resp w)) =
                    calls w @ [EvUpdate (update_payload (snd (update_Plan_Get req))) ures]"
    if "\<not> HasError (resp_Diagnostics (Diagnostics_Append resp (fst (update_Plan_Get req))))"
    using Update_spec [OF that, of conn w] by auto
  from a b show ?thesis by blast
qed

theorem Update_call_conditions_witness:
  "calls (snd (snd (resourceAgentStatusUpdate example_ctx (example_d ''inst-1:st-2'' False ''Break'')
                      (example_conn False False) example_world)))
     = [EvDescribe \<lparr>di_AgentStatusId = Some ''st-2'', di_InstanceId = Some ''inst-1''\<rparr>
          (Inl (ApiError True ''no such status''))]
   \<and> calls (snd (snd (resourceAgentStatusUpdate example_ctx (example_d ''inst-1:st-2'' False ''Pause'')
                      (example_conn False True) example_world)))
     = [EvUpdate \<lparr>ui_AgentStatusId = Some ''st-2'', ui_InstanceId = Some ''inst-1'',
                  ui_Name = Some ''Break'', ui_State = ''ENABLED'',
                  ui_Description = Some ''Away'', ui_DisplayOrder = None\<rparr>
          (Some (ApiError False ''update refused''))]
   \<and> \<not> HasError (resp_Diagnostics
         (Diagnostics_Append tracked_response (fst (update_Plan_Get example_update_request))))
   \<and> calls (snd (Update (example_conn False False) example_update_request tracked_response example_world))
     = [EvUpdate \<lparr>ui_AgentStatusId = Some ''st-2'', ui_InstanceId = Some ''inst-1'',
                  ui_Name = Some ''Break'', ui_State = ''ENABLED'',
                  ui_Description = Some ''Away'', ui_DisplayOrder = Some 3\<rparr> None]"
proof -
  note t = Update_call_conditions [of example_ctx "example_d ''inst-1:st-2'' False ''Break''"
      "example_conn False False" example_world tracked_response example_update_request]
  have ok: "\<not> HasError (resp_Diagnostics
         (Diagnostics_Append tracked_response (fst (update_Plan_Get example_update_request))))"
    by code_simp
  from t ok have "\<exists>ures. calls (snd (Update (example_conn False False) example_update_request
      tracked_response example_world)) =
        calls example_world @ [EvUpdate (update_payload (snd (update_Plan_Get example_update_request))) ures]"
    by blast
  moreover have "calls (snd (snd (resourceAgentStatusUpdate example_ctx (example_d ''inst-1:st-2'' False ''Break'')
                      (example_conn False False) example_world)))
     = [EvDescribe \<lparr>di_AgentStatusId = Some ''st-2'', di_InstanceId = Some ''inst-1''\<rparr>
          (Inl (ApiError True ''no such status''))]"
    by code_simp
  moreover have "calls (snd (snd (resourceAgentStatusUpdate example_ctx (example_d ''inst-1:st-2'' False ''Pause'')
                      (example_conn False True) example_world)))
     = [EvUpdate \<lparr>ui_AgentStatusId = Some ''st-2'', ui_InstanceId = Some ''inst-1'',
                  ui_Name = Some ''Break'', ui_State = ''ENABLED'',
                  ui_Description = Some ''Away'', ui_DisplayOrder = None\<rparr>
          (Some (ApiError False ''update refused''))]"
    by code_simp
  moreover have "calls (snd (Update (example_conn False False) example_update_request tracked_response example_world))
     = [EvUpdate \<lparr>ui_AgentStatusId = Some ''st-2'', ui_InstanceId = Some ''inst-1'',
                  ui_Name = Some ''Break'', ui_State = ''ENABLED'',
                  ui_Description = Some ''Away'', ui_DisplayOrder = Some 3\<rparr> None]"
    by code_simp
  ultimately show ?thesis using ok by simp
qed

text \<open>
  Claim C9. The framework's delete leaves the service and the log of calls as they were,
  leaves the state of the response alone, and adds to the diagnostics only what decoding
  the prior state yields; when that yields no error, the host's step removes the record and
  the response has no error. The delete function of the legacy resource is
  \<^verbatim>\<open>schema.NoopContext\<close>: no diagnostics, no call, resource data unchanged, after which the
  host clears the identifier.
\<close>

theorem Delete_is_noop:
  "snd (Delete req resp w) = w
   \<and> resp_Diagnostics (fst (Delete req resp w)) = Append (resp_Diagnostics resp) (fst (delete_State_Get req))
   \<and> resp_State (fst (Delete req resp w)) = resp_State resp
   \<and> (\<not> HasError (Append (resp_Diagnostics resp) (fst (delete_State_Get req)))
      \<longrightarrow> snd (DeleteResource req resp w) = w
        \<and> resp_State (fst (DeleteResource req resp w)) = None
        \<and> \<not> HasError (resp_Diagnostics (fst (DeleteResource req resp w))))
   \<and> DeleteContext ResourceAgentStatus ctx d conn w = ([], d, w)
   \<and> Resource_delete ResourceAgentStatus ctx d conn w = ([], SetId d [], w)"
  by (simp add: Delete_def DeleteResource_def Resource_delete_def ResourceAgentStatus_def
      NoopContext_def Diagnostics_Append_def Let_def HasError_def)

theorem Delete_is_noop_witness:
  "\<not> HasError (Append (resp_Diagnostics tracked_response) (fst (delete_State_Get example_delete_request)))
   \<and> DeleteResource example_delete_request tracked_response example_world
       = (tracked_response\<lparr>resp_State := None\<rparr>, example_world)
   \<and> Delete example_delete_request tracked_response example_world = (tracked_response, example_world)"
proof -
  have ok: "\<not> HasError (Append (resp_Diagnostics tracked_response) (fst (delete_State_Get example_delete_request)))"
    by code_simp
  from Delete_is_noop [of example_delete_request tracked_response example_world] ok
  have "snd (DeleteResource example_delete_request tracked_response example_world) = example_world"
    by blast
  moreover have "DeleteResource example_delete_request tracked_response example_world
       = (tracked_response\<lparr>resp_State := None\<rparr>, example_world)"
    by code_simp
  moreover have "Delete example_delete_request tracked_response example_world = (tracked_response, example_world)"
    by code_simp
  ultimately show ?thesis using ok by simp
qed

section \<open>The claims about read and about empty outputs\<close>

text \<open>
  Claim C2, at the input where the code departs from it. The service answers the describe
  call with the not-found signal, and the record is not new. The framework's read reports
  the error \<open>Error reading Connect Agent Status\<close> and keeps the record in the state; the
  legacy read, on the same service, returns no diagnostic and clears the identifier.
\<close>

theorem Read_not_found_reported_as_error:
  "Read (example_conn False False) example_read_request tracked_response example_world =
     (\<lparr>resp_Diagnostics =
         [Diagnostic SeverityError ''Error reading Connect Agent Status''
            ''Could not read Connect Agent Status, unexpected error: no such status''],
       resp_State = Some example_tracked,
       resp_Identity = Some \<lparr>id_Arn = Known ''arn:2'', id_AgentStatusID = Known ''st-2''\<rparr>\<rparr>,
      \<lparr>remote = (),
       calls = [EvDescribe \<lparr>di_AgentStatusId = Some ''st-2'', di_InstanceId = Some ''inst-1''\<rparr>
                  (Inl (ApiError True ''no such status''))]\<rparr>)
   \<and> fst (resourceAgentStatusRead example_ctx (example_d ''inst-1:st-2'' False ''Break'')
            (example_conn False False) example_world) = []
   \<and> Id (fst (snd (resourceAgentStatusRead example_ctx (example_d ''inst-1:st-2'' False ''Break'')
            (example_conn False False) example_world))) = []
   \<and> calls (snd (snd (resourceAgentStatusRead example_ctx (example_d ''inst-1:st-2'' False ''Break'')
            (example_conn False False) example_world)))
       = [EvDescribe \<lparr>di_AgentStatusId = Some ''st-2'', di_InstanceId = Some ''inst-1''\<rparr>
            (Inl (ApiError True ''no such status''))]"
  by code_simp

text \<open>
  Claim C6, as stated, fails for the framework's read: when the describe call succeeds with
  an output that holds no agent status, the read reports no error and removes the record
  from the state.
\<close>

theorem Read_empty_payload_dropped:
  "\<not> HasError (resp_Diagnostics (fst (Read empty_conn example_read_request tracked_response example_world)))
   \<and> resp_State (fst (Read empty_conn example_read_request tracked_response example_world)) = None
   \<and> calls (snd (Read empty_conn example_read_request tracked_response example_world))
       = [EvDescribe \<lparr>di_AgentStatusId = Some ''st-2'', di_InstanceId = Some ''inst-1''\<rparr>
            (Inr (Some \<lparr>do_AgentStatus = None\<rparr>))]"
  by code_simp

text \<open>
  Claim C6, amended. In the legacy variant an empty output is an error: when the create
  call returned no output, create reports an error and leaves the resource data as it was;
  when the describe call returned no output or an output without agent status, read reports
  an error and leaves the resource data as it was. In the framework variant, when the prior
  state and identity decode without error and the describe call returned such an output,
  read removes the record from the state and adds no diagnostic.
\<close>

theorem empty_payload_handling:
  "(\<exists>evs. calls (snd (snd (resourceAgentStatusCreate ctx d conn w))) = calls w @ evs
      \<and> (\<forall>inp. EvCreate inp (Inr None) \<in> set evs
           \<longrightarrow> HasError (fst (resourceAgentStatusCreate ctx d conn w))
             \<and> fst (snd (resourceAgentStatusCreate ctx d conn w)) = d))
   \<and> (\<exists>evs. calls (snd (snd (resourceAgentStatusRead ctx d conn w))) = calls w @ evs
      \<and> (\<forall>inp out. EvDescribe inp (Inr out) \<in> set evs \<and> Option.bind out do_AgentStatus = None
           \<longrightarrow> HasError (fst (resourceAgentStatusRead ctx d conn w))
             \<and> fst (snd (resourceAgentStatusRead ctx d conn w)) = d))
   \<and> (\<not> HasError (resp_Diagnostics (read_decoded req resp))
      \<longrightarrow> (\<exists>evs. calls (snd (Read conn req resp w)) = calls w @ evs
             \<and> (\<forall>inp out. EvDescribe inp (Inr out) \<in> set evs \<and> Option.bind out do_AgentStatus = None
                  \<longrightarrow> fst (Read conn req resp w) = (read_decoded req resp)\<lparr>resp_State := None\<rparr>)))"
proof -
  have a: "\<exists>evs. calls (snd (snd (resourceAgentStatusCreate ctx d conn w))) = calls w @ evs
      \<and> (\<forall>inp. EvCreate inp (Inr None) \<in> set evs
           \<longrightarrow> HasError (fst (resourceAgentStatusCreate ctx d conn w))
             \<and> fst (snd (resourceAgentStatusCreate ctx d conn w)) = d)"
  proof -
    from resourceAgentStatusCreate_events [of ctx d conn w] obtain res evs
      where e: "calls (snd (snd (resourceAgentStatusCreate ctx d conn w)))
                  = calls w @ EvCreate (legacy_create_payload ctx d) res # evs"
        and l: "list_all is_EvDescribe evs"
        and n: "res = Inr None \<longrightarrow>
                  HasError (fst (resourceAgentStatusCreate ctx d conn w))
                  \<and> fst (snd (resourceAgentStatusCreate ctx d conn w)) = d" by blast
    have "EvCreate inp (Inr None) \<notin> set evs" for inp
      using l by (induction evs) (auto elim: is_EvDescribe.elims)
    with n have "\<forall>inp. EvCreate inp (Inr None) \<in> set (EvCreate (legacy_create_payload ctx d) res # evs)
           \<longrightarrow> HasError (fst (resourceAgentStatusCreate ctx d conn w))
             \<and> fst (snd (resourceAgentStatusCreate ctx d conn w)) = d" by auto
    with e show ?thesis by blast
  qed
  have b: "\<exists>evs. calls (snd (snd (resourceAgentStatusRead ctx d conn w))) = calls w @ evs
      \<and> (\<forall>inp out. EvDescribe inp (Inr out) \<in> set evs \<and> Option.bind out do_AgentStatus = None
           \<longrightarrow> HasError (fst (resourceAgentStatusRead ctx d conn w))
             \<and> fst (snd (resourceAgentStatusRead ctx d conn w)) = d)"
  proof (cases "AgentStatusParseID (Id d)")
    case (Inl err)
    then show ?thesis by (simp add: resourceAgentStatusRead_malformed)
  next
    case (Inr p)
    obtain i a where "p = (i, a)" by (cases p)
    with Inr have parse: "AgentStatusParseID (Id d) = Inr (i, a)" by simp
    from resourceAgentStatusRead_spec [OF parse, where conn = conn and w = w and ctx = ctx]
    obtain res w1 where c: "calls w1 = calls w @
             [EvDescribe \<lparr>di_AgentStatusId = Some a, di_InstanceId = Some i\<rparr> res]"
      and r: "resourceAgentStatusRead ctx d conn w =
             (fst (legacy_read_result d i res), snd (legacy_read_result d i res), w1)"
      by blast
    from r legacy_read_result_empty [of _ d i]
    have "\<forall>inp out. EvDescribe inp (Inr out)
              \<in> set [EvDescribe \<lparr>di_AgentStatusId = Some a, di_InstanceId = Some i\<rparr> res]
            \<and> Option.bind out do_AgentStatus = None
           \<longrightarrow> HasError (fst (resourceAgentStatusRead ctx d conn w))
             \<and> fst (snd (resourceAgentStatusRead ctx d conn w)) = d"
      by auto
    moreover from r c have "calls (snd (snd (resourceAgentStatusRead ctx d conn w))) = calls w @
             [EvDescribe \<lparr>di_AgentStatusId = Some a, di_InstanceId = Some i\<rparr> res]" by simp
    ultimately show ?thesis by blast
  qed
  have c: "\<exists>evs. calls (snd (Read conn req resp w)) = calls w @ evs
             \<and> (\<forall>inp out. EvDescribe inp (Inr out) \<in> set evs \<and> Option.bind out do_AgentStatus = None
                  \<longrightarrow> fst (Read conn req resp w) = (read_decoded req resp)\<lparr>resp_State := None\<rparr>)"
    if ok: "\<not> HasError (resp_Diagnostics (read_decoded req resp))"
  proof -
    let ?inp = "\<lparr>di_AgentStatusId = Some (ValueString (AgentStatusID (snd (read_State_Get req)))),
                  di_InstanceId = Some (ValueString (InstanceID (snd (read_State_Get req))))\<rparr>"
    from Read_spec [OF ok, of w conn] obtain res w1
      where e: "calls w1 = calls w @ [EvDescribe ?inp res]"
        and r: "Read conn req resp w =
             (case res of
                Inl e \<Rightarrow> read_failed (read_decoded req resp) e
              | Inr response \<Rightarrow>
                  (case Option.bind response do_AgentStatus of
                     None \<Rightarrow> (read_decoded req resp)\<lparr>resp_State := None\<rparr>
                   | Some agentStatus \<Rightarrow>
                       (read_decoded req resp)
                         \<lparr>resp_State := Some (refreshed (snd (read_State_Get req)) agentStatus)\<rparr>), w1)"
      by blast
    from r have "\<forall>inp out. EvDescribe inp (Inr out) \<in> set [EvDescribe ?inp res]
                   \<and> Option.bind out do_AgentStatus = None
                  \<longrightarrow> fst (Read conn req resp w) = (read_decoded req resp)\<lparr>resp_State := None\<rparr>"
      by auto
    moreover from r e have "calls (snd (Read conn req resp w)) = calls w @ [EvDescribe ?inp res]"
      by simp
    ultimately show ?thesis by blast
  qed
  from a b c show ?thesis by blast
qed

theorem empty_payload_handling_witness:
  "resourceAgentStatusCreate example_ctx (example_d [] True []) empty_conn example_world
     = ([Diagnostic SeverityError ''error creating Connect Agent Status (Break): empty output'' []],
        example_d [] True [],
        \<lparr>remote = (),
         calls = [EvCreate \<lparr>ci_InstanceId = Some ''inst-1'', ci_Name = Some ''Break'',
                            ci_State = ''ENABLED'', ci_Description = Some ''Away'',
                            ci_DisplayOrder = None, ci_Tags = []\<rparr> (Inr None)]\<rparr>)
   \<and> resourceAgentStatusRead example_ctx (example_d ''inst-1:st-2'' False ''Break'') empty_conn example_world
     = ([Diagnostic SeverityError ''error getting Connect Agent Status (inst-1:st-2): empty response'' []],
        example_d ''inst-1:st-2'' False ''Break'',
        \<lparr>remote = (),
         calls = [EvDescribe \<lparr>di_AgentStatusId = Some ''st-2'', di_InstanceId = Some ''inst-1''\<rparr>
                    (Inr (Some \<lparr>do_AgentStatus = None\<rparr>))]\<rparr>)
   \<and> \<not> HasError (resp_Diagnostics (read_decoded example_read_request tracked_response))
   \<and> Read empty_conn example_read_request tracked_response example_world
     = (tracked_response\<lparr>resp_State := None\<rparr>,
        \<lparr>remote = (),
         calls = [EvDescribe \<lparr>di_AgentStatusId = Some ''st-2'', di_InstanceId = Some ''inst-1''\<rparr>
                    (Inr (Some \<lparr>do_AgentStatus = None\<rparr>))]\<rparr>)"
proof -
  have ok: "\<not> HasError (resp_Diagnostics (read_decoded example_read_request tracked_response))"
    by code_simp
  note t = empty_payload_handling [where ctx = example_ctx and d = "example_d [] True []"
      and conn = empty_conn and w = example_world and req = example_read_request
      and resp = tracked_response]
  from t ok have "\<exists>evs. calls (snd (Read empty_conn example_read_request tracked_response example_world))
      = calls example_world @ evs"
    by blast
  moreover have "resourceAgentStatusCreate example_ctx (example_d [] True []) empty_conn example_world
     = ([Diagnostic SeverityError ''error creating Connect Agent Status (Break): empty output'' []],
        example_d [] True [],
        \<lparr>remote = (),
         calls = [EvCreate \<lparr>ci_InstanceId = Some ''inst-1'', ci_Name = Some ''Break'',
                            ci_State = ''ENABLED'', ci_Description = Some ''Away'',
                            ci_DisplayOrder = None, ci_Tags = []\<rparr> (Inr None)]\<rparr>)"
    by (simp add: resourceAgentStatusCreate_def Let_def example_d_def example_ctx_def empty_conn_def
        example_world_def conn_CreateAgentStatus_def Get_def GetOk_def AppendFromErr_def
        AttrInstanceID_def AttrName_def AttrState_def AttrDescription_def)
  moreover have "resourceAgentStatusRead example_ctx (example_d ''inst-1:st-2'' False ''Break'') empty_conn example_world
     = ([Diagnostic SeverityError ''error getting Connect Agent Status (inst-1:st-2): empty response'' []],
        example_d ''inst-1:st-2'' False ''Break'',
        \<lparr>remote = (),
         calls = [EvDescribe \<lparr>di_AgentStatusId = Some ''st-2'', di_InstanceId = Some ''inst-1''\<rparr>
                    (Inr (Some \<lparr>do_AgentStatus = None\<rparr>))]\<rparr>)"
  proof -
    have p: "AgentStatusParseID ''inst-1:st-2'' = Inr (''inst-1'', ''st-2'')"
      by code_simp
    show ?thesis
      by (simp add: resourceAgentStatusRead_def Let_def Id_def p example_d_def empty_conn_def
          example_world_def conn_DescribeAgentStatus_def AppendFromErr_def NotFound_def
          IsNewResource_def)
  qed
  moreover have "Read empty_conn example_read_request tracked_response example_world
     = (tracked_response\<lparr>resp_State := None\<rparr>,
        \<lparr>remote = (),
         calls = [EvDescribe \<lparr>di_AgentStatusId = Some ''st-2'', di_InstanceId = Some ''inst-1''\<rparr>
                    (Inr (Some \<lparr>do_AgentStatus = None\<rparr>))]\<rparr>)"
    by code_simp
  ultimately show ?thesis using ok by simp
qed

section \<open>The claim about the display order\<close>











text \<open>
  The legacy resource has no display order attribute: the payload of its create call has
  none, whatever the state.
\<close>

lemma legacy_create_omits_display_order:
  "calls (snd (snd (resourceAgentStatusCreate example_ctx (example_d [] True [])
                      (example_conn False False) example_world)))
     = [EvCreate \<lparr>ci_InstanceId = Some ''inst-1'', ci_Name = Some ''Break'',
                  ci_State = ''ENABLED'', ci_Description = Some ''Away'',
                  ci_DisplayOrder = None, ci_Tags = []\<rparr>
          (Inr (Some \<lparr>co_AgentStatusId = Some ''st-new'', co_AgentStatusARN = Some ''arn:new''\<rparr>)),
        EvDescribe \<lparr>di_AgentStatusId = Some ''st-new'', di_InstanceId = Some ''inst-1''\<rparr>
          (Inl (ApiError True ''no such status''))]"
  by code_simp

end
